theory Spec2Isabelle
  imports Complex_Main "HOL-Library.Sublist"
begin

chapter \<open>The self-built JSON-RPC runtime of the Jira and Confluence adapters\<close>

text \<open>
  The repository holds three adapters that read newline-delimited JSON-RPC from standard
  input themselves: the Jira adapter v1.3.0 (\<^verbatim>\<open>src/mcp/jira/index.js\<close>), its
  predecessor v1.2.0 (\<^verbatim>\<open>src/unnamed/part_000\<close>, called the legacy adapter below) and
  the Confluence adapter (\<^verbatim>\<open>src/unnamed/part_001\<close>). Each function below is the
  translation of the source function of the same name; where two adapters hold the same
  name, the Jira v1.3.0 one carries the prefix \<open>jira_\<close>, the Confluence one \<open>conf_\<close>
  and the legacy one \<open>legacy_\<close>.

  Conventions of the embedding.
  \<^item> A JavaScript string is a \<^typ>\<open>string\<close>: a list of code units, restricted to
    U+0000..U+00FF. \<open>length\<close> is JavaScript's \<^verbatim>\<open>.length\<close>.
  \<^item> A JavaScript value that came out of \<^verbatim>\<open>JSON.parse\<close> is a \<open>json\<close>; a value that
    may also be \<^verbatim>\<open>undefined\<close> is a \<open>json option\<close>, \<open>None\<close> being
    \<^verbatim>\<open>undefined\<close>.
  \<^item> A function that may throw returns \<open>exn + 'a\<close>, \<open>Inl\<close> carrying the exception.
  \<^item> Mutable state (the partial-line buffer, the cache, the log of HTTPS requests, the
    number of clock readings) is passed explicitly and returned updated.
  \<^item> Library functions of the JavaScript runtime and of npm packages (\<^verbatim>\<open>JSON.parse\<close>,
    \<^verbatim>\<open>JSON.stringify\<close>, html-to-text's \<^verbatim>\<open>convert\<close>, the regular-expression engine,
    \<^verbatim>\<open>encodeURIComponent\<close>, \<^verbatim>\<open>toLowerCase\<close>, \<^verbatim>\<open>https.request\<close>,
    \<^verbatim>\<open>Date.now\<close>) are fields of the record \<open>runtime\<close>; every theorem holds for every
    runtime.
  \<^item> \<^verbatim>\<open>await\<close> is sequential composition: a handler runs to its end before the next
    chunk arrives.
\<close>

section \<open>JavaScript strings\<close>

text \<open>The code units below U+0100 that \<^verbatim>\<open>String.prototype.trim\<close> strips and that
  \<^verbatim>\<open>\s\<close> matches: TAB, LF, VT, FF, CR, SPACE and NO-BREAK SPACE.\<close>

definition is_ws :: "char \<Rightarrow> bool" where
  "is_ws c \<longleftrightarrow> c = CHR 0x09 \<or> c = CHR 0x0A \<or> c = CHR 0x0B \<or> c = CHR 0x0C \<or> c = CHR 0x0D
     \<or> c = CHR 0x20 \<or> c = CHR 0xA0"

definition js_trim :: "string \<Rightarrow> string" where
  "js_trim s = rev (dropWhile is_ws (rev (dropWhile is_ws s)))"

text \<open>\<^verbatim>\<open>!s.trim()\<close>: the string is empty or holds white space only.\<close>

definition blank :: "string \<Rightarrow> bool" where
  "blank s \<longleftrightarrow> js_trim s = []"

text \<open>\<^verbatim>\<open>s.split('\n')\<close>: never the empty array; \<^verbatim>\<open>''.split('\n')\<close> is \<^verbatim>\<open>['']\<close>.\<close>

fun split_nl :: "string \<Rightarrow> string list" where
  "split_nl [] = [[]]"
| "split_nl (c # cs) =
     (if c = CHR 0x0A then [] # split_nl cs
      else (case split_nl cs of [] \<Rightarrow> [[c]] | l # ls \<Rightarrow> (c # l) # ls))"

text \<open>\<^verbatim>\<open>hay.includes(needle)\<close> and \<^verbatim>\<open>s.startsWith(p)\<close>.\<close>

fun js_includes :: "string \<Rightarrow> string \<Rightarrow> bool" where
  "js_includes [] p = (p = [])"
| "js_includes (c # cs) p = (prefix p (c # cs) \<or> js_includes cs p)"

definition startsWith :: "string \<Rightarrow> string \<Rightarrow> bool" where
  "startsWith s p = prefix p s"

text \<open>Decimal notation of an integer.\<close>

fun show_nat :: "nat \<Rightarrow> string" where
  "show_nat n =
     (if n < 10 then [''0123456789'' ! n]
      else show_nat (n div 10) @ [''0123456789'' ! (n mod 10)])"

definition show_int :: "int \<Rightarrow> string" where
  "show_int i = (if i < 0 then ''-'' @ show_nat (nat (- i)) else show_nat (nat i))"

text \<open>\<^verbatim>\<open>s.replace(/P+/g, f)\<close> for a class \<open>P\<close> of code units: every maximal run of
  code units in \<open>P\<close> is replaced by \<open>f\<close> of the run. The second argument holds the
  run read so far, in reverse.\<close>

fun map_runs :: "(char \<Rightarrow> bool) \<Rightarrow> (string \<Rightarrow> string) \<Rightarrow> string \<Rightarrow> string \<Rightarrow> string" where
  "map_runs P f run [] = (if run = [] then [] else f (rev run))"
| "map_runs P f run (c # cs) =
     (if P c then map_runs P f (c # run) cs
      else (if run = [] then [] else f (rev run)) @ c # map_runs P f [] cs)"

section \<open>The transport framer\<close>

text \<open>
  \<^verbatim>\<open>src/mcp/jira/index.js\<close> lines 777-785 and \<^verbatim>\<open>src/unnamed/part_001\<close> lines
  1397-1405, the same text in both:
  \<^verbatim>\<open>buffer += data; const lines = buffer.split('\n'); buffer = lines.pop() || '';\<close>
  \<open>frame\<close> returns the lines handed to the loop and the new buffer. \<^verbatim>\<open>pop\<close>
  of an empty array is \<^verbatim>\<open>undefined\<close>, which \<^verbatim>\<open>|| ''\<close> turns into the empty string.
\<close>

definition frame :: "string \<Rightarrow> string \<Rightarrow> string list \<times> string" where
  "frame buffer data =
     (case rev (split_nl (buffer @ data)) of
        [] \<Rightarrow> ([], [])
      | l # front \<Rightarrow> (rev front, if l = [] then [] else l))"

text \<open>\<^verbatim>\<open>for (const line of lines) { if (!line.trim()) continue; ... }\<close>: the lines the
  loop body sees, the candidate messages.\<close>

definition candidates :: "string list \<Rightarrow> string list" where
  "candidates lines = filter (\<lambda>line. \<not> blank line) lines"

text \<open>Successive \<^verbatim>\<open>'data'\<close> events: the candidate messages of all chunks in the
  order the loop bodies see them, and the buffer left at the end.\<close>

fun feed :: "string \<Rightarrow> string list \<Rightarrow> string list \<times> string" where
  "feed buffer [] = ([], buffer)"
| "feed buffer (data # chunks) =
     (case frame buffer data of
        (lines, buffer') \<Rightarrow>
          (case feed buffer' chunks of (out, b) \<Rightarrow> (candidates lines @ out, b)))"

text \<open>
  The legacy adapter, \<^verbatim>\<open>src/unnamed/part_000\<close> lines 748-752, keeps no buffer:
  \<^verbatim>\<open>const lines = data.trim().split('\n'); for (const line of lines) { if (!line.trim()) continue;\<close>
\<close>

definition legacy_candidates :: "string \<Rightarrow> string list" where
  "legacy_candidates data = candidates (split_nl (js_trim data))"

definition legacy_feed :: "string list \<Rightarrow> string list" where
  "legacy_feed chunks = concat (map legacy_candidates chunks)"

section \<open>Values, exceptions and the runtime\<close>

datatype json =
    JNull
  | JBool bool
  | JNum rat
  | JInfinity bool
  | JStr string
  | JArr "json list"
  | JObj "(string \<times> json) list"

text \<open>A number is held by its value, a rational, as every finite double is one (the two
  zeros are one value: the program tells them apart nowhere); \<open>JInfinity negative\<close> is
  the infinity \<^verbatim>\<open>JSON.parse\<close> returns for a literal beyond the range of a double. An
  object is the list of its properties as \<^verbatim>\<open>JSON.parse\<close> built it, keys distinct.\<close>

datatype exn = Error string | TypeError string | SyntaxError string

fun message :: "exn \<Rightarrow> string" where
  "message (Error m) = m"
| "message (TypeError m) = m"
| "message (SyntaxError m) = m"

text \<open>Truthiness, as \<^verbatim>\<open>!v\<close>, \<^verbatim>\<open>v || d\<close> and \<^verbatim>\<open>if (v)\<close> test it.\<close>

fun truthy :: "json option \<Rightarrow> bool" where
  "truthy None = False"
| "truthy (Some JNull) = False"
| "truthy (Some (JBool b)) = b"
| "truthy (Some (JNum n)) = (n \<noteq> 0)"
| "truthy (Some (JInfinity negative)) = True"
| "truthy (Some (JStr s)) = (s \<noteq> [])"
| "truthy (Some (JArr xs)) = True"
| "truthy (Some (JObj kvs)) = True"

text \<open>\<^verbatim>\<open>v.k\<close> on a value that is not \<^verbatim>\<open>null\<close>: a property of an object, and
  \<^verbatim>\<open>undefined\<close> on a number, a boolean, a string or an array (the names read in this
  program are none of \<^verbatim>\<open>length\<close>, an index or a method). On \<^verbatim>\<open>null\<close> the read
  throws.\<close>

fun get :: "json \<Rightarrow> string \<Rightarrow> json option" where
  "get (JObj kvs) k = map_of kvs k"
| "get v k = None"

fun read_prop :: "json \<Rightarrow> string \<Rightarrow> exn + json option" where
  "read_prop JNull k =
     Inl (TypeError (''Cannot read properties of null (reading '' @ [CHR 0x27] @ k @ [CHR 0x27] @ '')''))"
| "read_prop v k = Inr (get v k)"

text \<open>The properties \<open>ks\<close> of \<open>v\<close>, read in order.\<close>

fun read_props :: "json \<Rightarrow> string list \<Rightarrow> exn + json option list" where
  "read_props v [] = Inr []"
| "read_props v (k # ks) =
     (case read_prop v k of
        Inl e \<Rightarrow> Inl e
      | Inr x \<Rightarrow> (case read_props v ks of Inl e \<Rightarrow> Inl e | Inr xs \<Rightarrow> Inr (x # xs)))"

text \<open>\<^verbatim>\<open>!v.k1 || !v.k2 || ...\<close>, evaluated left to right.\<close>

fun missing :: "json \<Rightarrow> string list \<Rightarrow> exn + bool" where
  "missing v [] = Inr False"
| "missing v (k # ks) =
     (case read_prop v k of
        Inl e \<Rightarrow> Inl e
      | Inr x \<Rightarrow> if \<not> truthy x then Inr True else missing v ks)"

text \<open>\<^verbatim>\<open>typeof v === 'object'\<close>.\<close>

fun typeof_object :: "json \<Rightarrow> bool" where
  "typeof_object JNull = True"
| "typeof_object (JArr xs) = True"
| "typeof_object (JObj kvs) = True"
| "typeof_object v = False"

text \<open>An HTTPS request: method, path below the REST root, body. Its outcome: a network
  error, or a status code and the body received.\<close>

datatype http_call = Http string string "json option"

datatype http_response = NetError string | Response nat string

text \<open>The backend-facing methods of the adapter objects that are not translated here
  (\<^verbatim>\<open>getIssue\<close>, \<^verbatim>\<open>createPage\<close>, ...): the method's name and its actual arguments.\<close>

datatype api_call = Api string "json option list"

text \<open>The state of an adapter object and of its environment: the HTTPS requests made so
  far, the Confluence adapter's \<^verbatim>\<open>this.cache\<close> (key to data and timestamp), and the
  number of \<^verbatim>\<open>Date.now()\<close> readings taken so far.\<close>

record world =
  calls :: "http_call list"
  cache :: "string \<Rightarrow> (json \<times> int) option"
  ticks :: nat

text \<open>The three option objects handed to html-to-text's \<^verbatim>\<open>convert\<close>.\<close>

datatype convert_options = JiraOptions | LegacyJiraOptions | ConfluenceOptions

text \<open>
  The regular expressions left to the engine, by their place in
  \<^verbatim>\<open>src/unnamed/part_001\<close>: \<^verbatim>\<open>this.regexPatterns\<close> (lines 15-36) and the local
  patterns of \<^verbatim>\<open>preprocessHtml\<close>, \<^verbatim>\<open>parseJiraMacros\<close>, \<^verbatim>\<open>parseDateTimes\<close>,
  \<^verbatim>\<open>parseLinks\<close>, \<^verbatim>\<open>cleanHtmlToText\<close>, \<^verbatim>\<open>searchPagesSimple\<close>,
  \<^verbatim>\<open>validateAndOptimizeCQL\<close> and \<^verbatim>\<open>advancedSearch\<close>.
\<close>

datatype regex =
    ConfluenceTags | EmptyTags | StyleAttributes | DataAttributes | MetaTags
  | SelfClosingMeta | Multimedia | SelfClosingMultimedia | MultipleSpaces | TagSpaces
  | JiraMacro | KeyParameter | ServerIdParameter
  | TimeElement | SelfClosingTime
  | PageLink | UserLink | SimpleUserLink | GeneralLink | AnyTag
  | TitleTilde | TextTilde | NotWordOrSpace
  | DuplicateSpace | EmptyParens | DoubledOperator
  | CqlSpaces | CqlEquals | CqlTilde | CqlAnd | CqlOr
  | SpaceEquals

text \<open>
  The runtime. \<open>JSON_stringify n v\<close> is \<^verbatim>\<open>JSON.stringify(v, null, n)\<close>, and
  \<^verbatim>\<open>JSON.stringify(v)\<close> for \<open>n = 0\<close>. \<open>re_replace r f s\<close> is \<^verbatim>\<open>s.replace(r, f)\<close>, \<open>f\<close> reading the groups
  of a match by number (group 0 is the match); \<open>re_match r s\<close> is \<^verbatim>\<open>s.match(r)\<close>;
  \<open>re_test r s\<close> is \<^verbatim>\<open>r.test(s)\<close>. \<open>https_request\<close> answers a request, given the
  requests answered before it. \<open>clock n\<close> is the value of the \<open>n\<close>-th reading of
  \<^verbatim>\<open>Date.now()\<close>. \<open>Number_toString x\<close> is \<^verbatim>\<open>String(x)\<close> for a number
  \<open>x\<close>. \<open>api\<close> runs a method of the adapter object that is not translated.
\<close>

record runtime =
  JSON_parse :: "string \<Rightarrow> exn + json"
  JSON_stringify :: "nat \<Rightarrow> json \<Rightarrow> string"
  Number_toString :: "rat \<Rightarrow> string"
  convert :: "convert_options \<Rightarrow> string \<Rightarrow> exn + string"
  encodeURIComponent :: "string \<Rightarrow> string"
  toLowerCase :: "string \<Rightarrow> string"
  re_test :: "regex \<Rightarrow> string \<Rightarrow> bool"
  re_replace :: "regex \<Rightarrow> ((nat \<Rightarrow> string) \<Rightarrow> string) \<Rightarrow> string \<Rightarrow> string"
  re_match :: "regex \<Rightarrow> string \<Rightarrow> (nat \<Rightarrow> string) option"
  https_request :: "http_call list \<Rightarrow> http_call \<Rightarrow> http_response"
  clock :: "nat \<Rightarrow> int"
  api :: "api_call \<Rightarrow> world \<Rightarrow> (exn + json) \<times> world"

text \<open>
  A value inside a template literal, \<^verbatim>\<open>`${v}`\<close>. A safe integer (an integer of
  magnitude below \<open>2 ^ 53\<close>) prints with all its digits; the notation of any other
  number (a fraction, or an integer too large to be exact, which prints in exponent form
  from \<open>10 ^ 21\<close> on) is the engine's, \<open>Number_toString\<close>. An array is joined with
  commas, \<^verbatim>\<open>null\<close> elements printing as nothing. An object prints as
  \<^verbatim>\<open>[object Object]\<close>, unless it has a property \<^verbatim>\<open>toString\<close> of its own: that is no
  function, since it came out of \<^verbatim>\<open>JSON.parse\<close>, and the conversion throws.
\<close>

definition isSafeInteger :: "rat \<Rightarrow> bool" where
  "isSafeInteger x \<longleftrightarrow> x = of_int \<lfloor>x\<rfloor> \<and> \<bar>x\<bar> < 2 ^ 53"

fun json_str :: "runtime \<Rightarrow> json \<Rightarrow> exn + string"
  and join_comma :: "runtime \<Rightarrow> json list \<Rightarrow> exn + string" where
  "json_str rt JNull = Inr ''null''"
| "json_str rt (JBool b) = Inr (if b then ''true'' else ''false'')"
| "json_str rt (JNum x) =
     Inr (if isSafeInteger x then show_int \<lfloor>x\<rfloor> else Number_toString rt x)"
| "json_str rt (JInfinity negative) = Inr (if negative then ''-Infinity'' else ''Infinity'')"
| "json_str rt (JStr s) = Inr s"
| "json_str rt (JArr xs) = join_comma rt xs"
| "json_str rt (JObj kvs) =
     (if ''toString'' \<in> fst ` set kvs
      then Inl (TypeError ''Cannot convert object to primitive value'')
      else Inr ''[object Object]'')"
| "join_comma rt [] = Inr []"
| "join_comma rt (x # xs) =
     (case (if x = JNull then Inr [] else json_str rt x) of
        Inl e \<Rightarrow> Inl e
      | Inr s \<Rightarrow>
          if xs = [] then Inr s
          else (case join_comma rt xs of Inl e \<Rightarrow> Inl e | Inr t \<Rightarrow> Inr (s @ '','' @ t)))"

fun to_str :: "runtime \<Rightarrow> json option \<Rightarrow> exn + string" where
  "to_str rt None = Inr ''undefined''"
| "to_str rt (Some v) = json_str rt v"

section \<open>Replies and the tool registries\<close>

text \<open>A tool of \<^verbatim>\<open>tools/list\<close>: its name, the properties of its input schema and the
  ones the schema lists as \<^verbatim>\<open>required\<close>.\<close>

record tool =
  tool_name :: string
  properties :: "string list"
  required :: "string list"

text \<open>What \<^verbatim>\<open>handleRequest\<close> returns: the handshake descriptor (server name and
  version), the registry, or the content of a tool call (its text and \<^verbatim>\<open>isError\<close>).\<close>

datatype response =
    Descriptor string string
  | ToolList "tool list"
  | Content string bool

text \<open>A line written to standard output: \<^verbatim>\<open>{jsonrpc, id, result}\<close> or
  \<^verbatim>\<open>{jsonrpc, id, error: {code, message, data}}\<close> (the legacy adapter writes no
  \<^verbatim>\<open>data\<close>).\<close>

datatype reply =
    Success json response
  | Failure json int string "string option"

fun reply_id :: "reply \<Rightarrow> json" where
  "reply_id (Success i r) = i"
| "reply_id (Failure i c m d) = i"

text \<open>\<^verbatim>\<open>src/mcp/jira/index.js\<close> lines 539-658.\<close>

definition jira_tools :: "tool list" where
  "jira_tools =
    [\<lparr>tool_name = ''get_projects'', properties = [], required = []\<rparr>,
     \<lparr>tool_name = ''get_issue'', properties = [''issueKey''], required = [''issueKey'']\<rparr>,
     \<lparr>tool_name = ''search_issues'', properties = [''jql'', ''maxResults''], required = [''jql'']\<rparr>,
     \<lparr>tool_name = ''create_issue'',
      properties = [''projectKey'', ''issueType'', ''summary'', ''description'', ''assignee''],
      required = [''projectKey'', ''issueType'', ''summary'']\<rparr>,
     \<lparr>tool_name = ''update_issue'', properties = [''issueKey'', ''fields''],
      required = [''issueKey'', ''fields'']\<rparr>,
     \<lparr>tool_name = ''get_issue_types'', properties = [''projectKey''], required = []\<rparr>,
     \<lparr>tool_name = ''add_comment'', properties = [''issueKey'', ''comment''],
      required = [''issueKey'', ''comment'']\<rparr>,
     \<lparr>tool_name = ''get_current_user'', properties = [], required = []\<rparr>,
     \<lparr>tool_name = ''get_labels'', properties = [''projectKey'', ''maxResults''], required = []\<rparr>,
     \<lparr>tool_name = ''get_fix_versions'', properties = [''projectKey''], required = [''projectKey'']\<rparr>,
     \<lparr>tool_name = ''get_components'', properties = [''projectKey''], required = [''projectKey'']\<rparr>]"

text \<open>\<^verbatim>\<open>src/unnamed/part_001\<close> lines 1033-1183.\<close>

definition conf_tools :: "tool list" where
  "conf_tools =
    [\<lparr>tool_name = ''get_spaces'', properties = [''limit''], required = []\<rparr>,
     \<lparr>tool_name = ''get_page'', properties = [''pageId''], required = [''pageId'']\<rparr>,
     \<lparr>tool_name = ''search_pages'', properties = [''query'', ''limit''], required = [''query'']\<rparr>,
     \<lparr>tool_name = ''create_page'',
      properties = [''spaceKey'', ''title'', ''content'', ''parentPageId''],
      required = [''spaceKey'', ''title'', ''content'']\<rparr>,
     \<lparr>tool_name = ''update_page'', properties = [''pageId'', ''title'', ''content'', ''version''],
      required = [''pageId'', ''title'', ''content'', ''version'']\<rparr>,
     \<lparr>tool_name = ''get_child_pages'', properties = [''pageId'', ''limit''], required = [''pageId'']\<rparr>,
     \<lparr>tool_name = ''get_space_pages'', properties = [''spaceKey'', ''limit'', ''start''],
      required = [''spaceKey'']\<rparr>,
     \<lparr>tool_name = ''get_space_details'', properties = [''spaceKey''], required = [''spaceKey'']\<rparr>]"

section \<open>The Jira adapter v1.3.0: dispatcher\<close>

text \<open>
  One \<^verbatim>\<open>case\<close> of the \<^verbatim>\<open>switch (name)\<close> in \<^verbatim>\<open>handleToolCall\<close>
  (\<^verbatim>\<open>src/mcp/jira/index.js\<close> lines 678-755): the test
  \<^verbatim>\<open>if (!args.a || !args.b) throw new Error(msg)\<close> over the names \<open>req\<close> (no test when
  \<open>req\<close> is empty), then the call \<^verbatim>\<open>await this.m(args.k1, args.k2, ...)\<close>.
\<close>

definition tool_case ::
  "runtime \<Rightarrow> json \<Rightarrow> string list \<Rightarrow> string \<Rightarrow> string \<Rightarrow> string list \<Rightarrow> world
     \<Rightarrow> (exn + json) \<times> world" where
  "tool_case rt args req msg m ks w =
     (case missing args req of
        Inl e \<Rightarrow> (Inl e, w)
      | Inr True \<Rightarrow> (Inl (Error msg), w)
      | Inr False \<Rightarrow>
          (case read_props args ks of
             Inl e \<Rightarrow> (Inl e, w)
           | Inr vs \<Rightarrow> api rt (Api m vs) w))"

definition jira_switch :: "runtime \<Rightarrow> json option \<Rightarrow> json \<Rightarrow> world \<Rightarrow> (exn + json) \<times> world" where
  "jira_switch rt name args w =
     (if name = Some (JStr ''get_projects'') then
        (if \<not> truthy (Some args) \<or> \<not> typeof_object args
         then (Inl (Error ''Invalid arguments format''), w)
         else api rt (Api ''getProjects'' []) w)
      else if name = Some (JStr ''get_issue'') then
        tool_case rt args [''issueKey''] ''issueKey is required'' ''getIssue'' [''issueKey''] w
      else if name = Some (JStr ''search_issues'') then
        tool_case rt args [''jql''] ''jql is required'' ''searchIssues'' [''jql'', ''maxResults''] w
      else if name = Some (JStr ''create_issue'') then
        tool_case rt args [''projectKey'', ''issueType'', ''summary'']
          ''projectKey, issueType, and summary are required'' ''createIssue''
          [''projectKey'', ''issueType'', ''summary'', ''description'', ''assignee''] w
      else if name = Some (JStr ''update_issue'') then
        tool_case rt args [''issueKey'', ''fields''] ''issueKey and fields are required''
          ''updateIssue'' [''issueKey'', ''fields''] w
      else if name = Some (JStr ''get_issue_types'') then
        tool_case rt args [] [] ''getIssueTypes'' [''projectKey''] w
      else if name = Some (JStr ''add_comment'') then
        tool_case rt args [''issueKey'', ''comment''] ''issueKey and comment are required''
          ''addComment'' [''issueKey'', ''comment''] w
      else if name = Some (JStr ''get_current_user'') then
        tool_case rt args [] [] ''getCurrentUser'' [] w
      else if name = Some (JStr ''get_labels'') then
        tool_case rt args [] [] ''getLabels'' [''projectKey'', ''maxResults''] w
      else if name = Some (JStr ''get_fix_versions'') then
        tool_case rt args [''projectKey''] ''projectKey is required'' ''getFixVersions''
          [''projectKey''] w
      else if name = Some (JStr ''get_components'') then
        tool_case rt args [''projectKey''] ''projectKey is required'' ''getComponents''
          [''projectKey''] w
      else (case to_str rt name of
              Inl e \<Rightarrow> (Inl e, w)
            | Inr n \<Rightarrow> (Inl (Error (''Unknown tool: '' @ n)), w)))"

text \<open>\<^verbatim>\<open>const { name, arguments: args = {} } = params;\<close> throws on \<^verbatim>\<open>null\<close>, outside
  the \<^verbatim>\<open>try\<close>; the \<^verbatim>\<open>catch\<close> rewraps whatever the \<^verbatim>\<open>switch\<close> threw.\<close>

definition destructure_params :: "json \<Rightarrow> exn + json option \<times> json" where
  "destructure_params params =
     (case params of
        JNull \<Rightarrow>
          Inl (TypeError (''Cannot destructure property '' @ [CHR 0x27] @ ''name'' @ [CHR 0x27]
                 @ '' of '' @ [CHR 0x27] @ ''params'' @ [CHR 0x27] @ '' as it is null.''))
      | _ \<Rightarrow>
          Inr (get params ''name'',
               (case get params ''arguments'' of None \<Rightarrow> JObj [] | Some a \<Rightarrow> a)))"

definition jira_handleToolCall :: "runtime \<Rightarrow> json \<Rightarrow> world \<Rightarrow> (exn + response) \<times> world" where
  "jira_handleToolCall rt params w =
     (case destructure_params params of
        Inl e \<Rightarrow> (Inl e, w)
      | Inr (name, args) \<Rightarrow>
          (case jira_switch rt name args w of
             (Inl error, w') \<Rightarrow> (Inl (Error (''Tool execution failed: '' @ message error)), w')
           | (Inr result, w') \<Rightarrow> (Inr (Content (JSON_stringify rt 2 result) False), w')))"

text \<open>\<^verbatim>\<open>const { method, params = {} } = request;\<close> and the \<^verbatim>\<open>switch (method)\<close>
  (lines 521-670). The \<^verbatim>\<open>catch (error) { throw error; }\<close> around it changes nothing.\<close>

definition destructure_request :: "json \<Rightarrow> exn + json option \<times> json" where
  "destructure_request request =
     (case request of
        JNull \<Rightarrow>
          Inl (TypeError (''Cannot destructure property '' @ [CHR 0x27] @ ''method'' @ [CHR 0x27]
                 @ '' of '' @ [CHR 0x27] @ ''request'' @ [CHR 0x27] @ '' as it is null.''))
      | _ \<Rightarrow>
          Inr (get request ''method'',
               (case get request ''params'' of None \<Rightarrow> JObj [] | Some p \<Rightarrow> p)))"

definition jira_handleRequest :: "runtime \<Rightarrow> json \<Rightarrow> world \<Rightarrow> (exn + response) \<times> world" where
  "jira_handleRequest rt request w =
     (case destructure_request request of
        Inl e \<Rightarrow> (Inl e, w)
      | Inr (method, params) \<Rightarrow>
          if method = Some (JStr ''initialize'') then
            (Inr (Descriptor ''jira-ultra-optimized'' ''1.3.0''), w)
          else if method = Some (JStr ''tools/list'') then (Inr (ToolList jira_tools), w)
          else if method = Some (JStr ''tools/call'') then jira_handleToolCall rt params w
          else (case to_str rt method of
                  Inl e \<Rightarrow> (Inl e, w)
                | Inr m \<Rightarrow> (Inl (Error (''Unknown method: '' @ m)), w)))"

text \<open>The \<^verbatim>\<open>catch\<close> of the dispatch loop (lines 814-839): code and message of the error
  reply, chosen by substrings of the exception's message.\<close>

definition jira_error_code :: "string \<Rightarrow> int \<times> string" where
  "jira_error_code m =
     (if js_includes m ''Unknown method'' then (- 32601, ''Method not found'')
      else if js_includes m ''required'' \<or> js_includes m ''Invalid arguments''
        then (- 32602, ''Invalid params'')
      else if js_includes m ''Tool execution failed'' then (- 32000, ''Tool execution error'')
      else (- 32603, ''Internal error''))"

text \<open>The first \<^verbatim>\<open>try\<close> of the loop body (lines 787-804):
  \<^verbatim>\<open>request = JSON.parse(line); requestId = request.id || null;\<close>. The read of
  \<^verbatim>\<open>request.id\<close> throws when the line is the JSON text \<^verbatim>\<open>null\<close>.\<close>

definition id_or_null :: "json option \<Rightarrow> json" where
  "id_or_null i = (if truthy i then (case i of Some v \<Rightarrow> v | None \<Rightarrow> JNull) else JNull)"

definition jira_decode :: "runtime \<Rightarrow> string \<Rightarrow> exn + json \<times> json" where
  "jira_decode rt line =
     (case JSON_parse rt line of
        Inl e \<Rightarrow> Inl e
      | Inr request \<Rightarrow>
          (case read_prop request ''id'' of
             Inl e \<Rightarrow> Inl e
           | Inr i \<Rightarrow> Inr (request, id_or_null i)))"

text \<open>The loop body for a line that is not blank (lines 787-839).\<close>

definition jira_line :: "runtime \<Rightarrow> string \<Rightarrow> world \<Rightarrow> reply list \<times> world" where
  "jira_line rt line w =
     (case jira_decode rt line of
        Inl parseError \<Rightarrow> ([Failure JNull (- 32700) ''Parse error'' (Some (message parseError))], w)
      | Inr (request, requestId) \<Rightarrow>
          (case jira_handleRequest rt request w of
             (Inr response, w') \<Rightarrow> ([Success requestId response], w')
           | (Inl error, w') \<Rightarrow>
               (case jira_error_code (message error) of
                  (errorCode, errorMessage) \<Rightarrow>
                    ([Failure requestId errorCode errorMessage (Some (message error))], w'))))"

fun jira_lines :: "runtime \<Rightarrow> string list \<Rightarrow> world \<Rightarrow> reply list \<times> world" where
  "jira_lines rt [] w = ([], w)"
| "jira_lines rt (line # lines) w =
     (if blank line then jira_lines rt lines w
      else (case jira_line rt line w of
              (out, w') \<Rightarrow> (case jira_lines rt lines w' of (out', w'') \<Rightarrow> (out @ out', w''))))"

text \<open>The \<^verbatim>\<open>'data'\<close> handler (lines 777-841): the state is the buffer and the world.\<close>

definition jira_on_data ::
  "runtime \<Rightarrow> string \<times> world \<Rightarrow> string \<Rightarrow> reply list \<times> (string \<times> world)" where
  "jira_on_data rt st data =
     (case frame (fst st) data of
        (lines, buffer') \<Rightarrow>
          (case jira_lines rt lines (snd st) of (out, w') \<Rightarrow> (out, (buffer', w'))))"

section \<open>The Confluence adapter: \<^verbatim>\<open>cleanHtmlToText\<close>\<close>

text \<open>\<^verbatim>\<open>parseJiraMacros\<close>, \<^verbatim>\<open>parseDateTimes\<close> and \<^verbatim>\<open>parseLinks\<close>
  (\<^verbatim>\<open>src/unnamed/part_001\<close> lines 175-241), on a string.\<close>

definition parseJiraMacros :: "runtime \<Rightarrow> string \<Rightarrow> string" where
  "parseJiraMacros rt html =
     re_replace rt JiraMacro
       (\<lambda>g. case re_match rt KeyParameter (g 1) of
               Some keyMatch \<Rightarrow>
                 (let issueKey = js_trim (keyMatch 1);
                      serverId = (case re_match rt ServerIdParameter (g 1) of
                                    Some serverIdMatch \<Rightarrow> js_trim (serverIdMatch 1)
                                  | None \<Rightarrow> [])
                  in ''[JIRA: '' @ issueKey
                       @ (if serverId \<noteq> [] then '' ('' @ serverId @ '')'' else []) @ '']'')
             | None \<Rightarrow> ''[JIRA Issue]'')
       html"

definition parseDateTimes :: "runtime \<Rightarrow> string \<Rightarrow> string" where
  "parseDateTimes rt html =
     re_replace rt SelfClosingTime (\<lambda>g. ''[Date: '' @ g 1 @ '']'')
       (re_replace rt TimeElement
          (\<lambda>g. let displayText = (if js_trim (g 2) \<noteq> [] then js_trim (g 2) else g 1)
                in ''[Date: '' @ g 1
                     @ (if displayText \<noteq> g 1 then '' ('' @ displayText @ '')'' else []) @ '']'')
          html)"

definition parseLinks :: "runtime \<Rightarrow> string \<Rightarrow> string" where
  "parseLinks rt html =
     re_replace rt GeneralLink
       (\<lambda>g. let textContent = js_trim (re_replace rt AnyTag (\<lambda>m. []) (g 1))
             in if textContent \<noteq> [] then ''[Link: '' @ textContent @ '']'' else ''[Link]'')
       (re_replace rt SimpleUserLink (\<lambda>g. ''[User: '' @ g 1 @ '']'')
          (re_replace rt UserLink (\<lambda>g. ''[User: '' @ js_trim (g 4) @ '']'')
             (re_replace rt PageLink (\<lambda>g. ''[Link: '' @ g 2 @ '']'') html)))"

text \<open>\<^verbatim>\<open>preprocessHtml\<close>, lines 145-172, on a string that is not empty.\<close>

definition preprocess_string :: "runtime \<Rightarrow> string \<Rightarrow> string" where
  "preprocess_string rt html =
     js_trim
       (re_replace rt TagSpaces (\<lambda>g. ''><'')
         (re_replace rt MultipleSpaces (\<lambda>g. '' '')
           (re_replace rt SelfClosingMultimedia (\<lambda>g. [])
             (re_replace rt Multimedia (\<lambda>g. [])
               (re_replace rt SelfClosingMeta (\<lambda>g. [])
                 (re_replace rt MetaTags (\<lambda>g. [])
                   (re_replace rt DataAttributes (\<lambda>g. [])
                     (re_replace rt StyleAttributes (\<lambda>g. [])
                       (re_replace rt EmptyTags (\<lambda>g. [])
                         (re_replace rt ConfluenceTags (\<lambda>g. [])
                           (parseLinks rt (parseDateTimes rt (parseJiraMacros rt html)))))))))))))"

text \<open>\<^verbatim>\<open>preprocessHtml(html)\<close> on any value: \<^verbatim>\<open>if (!html) return ""\<close>, and
  \<^verbatim>\<open>html.replace\<close> is no function unless \<open>html\<close> is a string.\<close>

definition preprocessHtml :: "runtime \<Rightarrow> json option \<Rightarrow> exn + string" where
  "preprocessHtml rt html =
     (if \<not> truthy html then Inr []
      else (case html of
              Some (JStr s) \<Rightarrow> Inr (preprocess_string rt s)
            | _ \<Rightarrow> Inl (TypeError ''html.replace is not a function'')))"

text \<open>\<^verbatim>\<open>cleanHtmlToText(html)\<close>, lines 244-261: the \<^verbatim>\<open>try\<close> block, and the
  \<^verbatim>\<open>catch\<close> that strips every tag from the preprocessed text.\<close>

definition cleanHtmlToText :: "runtime \<Rightarrow> json option \<Rightarrow> exn + string" where
  "cleanHtmlToText rt html =
     (if \<not> truthy html then Inr []
      else
        (case (case preprocessHtml rt html of
                 Inl e \<Rightarrow> Inl e
               | Inr preprocessed \<Rightarrow> convert rt ConfluenceOptions preprocessed) of
           Inr cleanText \<Rightarrow> Inr cleanText
         | Inl error \<Rightarrow>
             (case preprocessHtml rt html of
                Inl e \<Rightarrow> Inl e
              | Inr preprocessed \<Rightarrow> Inr (js_trim (re_replace rt AnyTag (\<lambda>g. []) preprocessed)))))"

section \<open>The Confluence adapter: response cache and \<^verbatim>\<open>makeRequest\<close>\<close>

text \<open>\<^verbatim>\<open>src/unnamed/part_001\<close> lines 11-12 and 124-142.\<close>

definition cacheTimeout :: int where
  "cacheTimeout = 5 * 60 * 1000"

definition date_now :: "runtime \<Rightarrow> world \<Rightarrow> int \<times> world" where
  "date_now rt w = (clock rt (ticks w), w\<lparr>ticks := Suc (ticks w)\<rparr>)"

definition getCacheKey :: "runtime \<Rightarrow> string \<Rightarrow> json \<Rightarrow> string" where
  "getCacheKey rt endpoint params = endpoint @ '':'' @ JSON_stringify rt 0 params"

text \<open>\<^verbatim>\<open>Date.now()\<close> is read only when the entry exists (\<^verbatim>\<open>&&\<close>); the key is
  deleted on every other path; \<^verbatim>\<open>null\<close> is the value for "absent".\<close>

definition getFromCache :: "runtime \<Rightarrow> string \<Rightarrow> world \<Rightarrow> json \<times> world" where
  "getFromCache rt key w =
     (case cache w key of
        None \<Rightarrow> (JNull, w\<lparr>cache := (cache w)(key := None)\<rparr>)
      | Some (data, timestamp) \<Rightarrow>
          (case date_now rt w of
             (now, w1) \<Rightarrow>
               if now - timestamp < cacheTimeout then (data, w1)
               else (JNull, w1\<lparr>cache := (cache w1)(key := None)\<rparr>)))"

definition setToCache :: "runtime \<Rightarrow> string \<Rightarrow> json \<Rightarrow> world \<Rightarrow> world" where
  "setToCache rt key data w =
     (case date_now rt w of (now, w1) \<Rightarrow> w1\<lparr>cache := (cache w1)(key \<mapsto> (data, now))\<rparr>)"

text \<open>
  \<^verbatim>\<open>makeRequest(endpoint, method = "GET", body = null)\<close>, lines 323-396. A cached value
  is used only when it is truthy (\<^verbatim>\<open>if (cached) return cached;\<close>). The request is
  logged in \<open>calls\<close> when it is sent. The URL is assumed well-formed.
\<close>

definition conf_makeRequest ::
  "runtime \<Rightarrow> string \<Rightarrow> string \<Rightarrow> json \<Rightarrow> world \<Rightarrow> (exn + json) \<times> world" where
  "conf_makeRequest rt endpoint method body w =
     (let cacheKey = getCacheKey rt endpoint (JObj [(''method'', JStr method), (''body'', body)]);
          (cached, w1) = (if method = ''GET'' then getFromCache rt cacheKey w else (JNull, w))
      in if method = ''GET'' \<and> truthy (Some cached) then (Inr cached, w1)
         else
           (let w2 = w1\<lparr>calls := calls w1 @ [Http method endpoint (Some body)]\<rparr>
            in case https_request rt (calls w1) (Http method endpoint (Some body)) of
                 NetError m \<Rightarrow> (Inl (Error (''Request failed: '' @ m)), w2)
               | Response statusCode data \<Rightarrow>
                   if 400 \<le> statusCode then
                     (Inl (Error (''Confluence API Error: '' @ show_nat statusCode @ '' - '' @ data)), w2)
                   else
                     (case JSON_parse rt data of
                        Inl e \<Rightarrow> (Inl (Error (''Failed to parse response: '' @ message e)), w2)
                      | Inr result \<Rightarrow>
                          (Inr result,
                           if method = ''GET'' then setToCache rt cacheKey result w2 else w2))))"

text \<open>The key under which \<^verbatim>\<open>makeRequest(endpoint)\<close>, a \<^verbatim>\<open>GET\<close> without a body,
  holds its result in the cache.\<close>

definition get_key :: "runtime \<Rightarrow> string \<Rightarrow> string" where
  "get_key rt endpoint =
     getCacheKey rt endpoint (JObj [(''method'', JStr ''GET''), (''body'', JNull)])"

section \<open>The Confluence adapter: \<^verbatim>\<open>optimizeResponse\<close>\<close>

text \<open>An object literal \<^verbatim>\<open>{k1: v1, k2: v2, ...}\<close>. A property whose value is
  \<^verbatim>\<open>undefined\<close> is left out: a read finds it \<^verbatim>\<open>undefined\<close> either way, and
  \<^verbatim>\<open>JSON.stringify\<close> leaves it out.\<close>

definition object_literal :: "(string \<times> json option) list \<Rightarrow> json" where
  "object_literal kvs =
     JObj (concat (map (\<lambda>(k, v). case v of None \<Rightarrow> [] | Some x \<Rightarrow> [(k, x)]) kvs))"

text \<open>\<^verbatim>\<open>v?.k\<close>, \<^verbatim>\<open>a || b\<close>, \<^verbatim>\<open>v.length\<close> and the assignment
  \<^verbatim>\<open>o.k = v\<close> on an object, where a property that exists keeps its place.\<close>

fun optional :: "json option \<Rightarrow> string \<Rightarrow> json option" where
  "optional None k = None"
| "optional (Some JNull) k = None"
| "optional (Some v) k = get v k"

definition or_else :: "json option \<Rightarrow> json option \<Rightarrow> json option" where
  "or_else a b = (if truthy a then a else b)"

fun js_length :: "json \<Rightarrow> json option" where
  "js_length (JStr s) = Some (JNum (of_nat (length s)))"
| "js_length (JArr xs) = Some (JNum (of_nat (length xs)))"
| "js_length v = get v ''length''"

fun assign :: "json \<Rightarrow> string \<Rightarrow> json \<Rightarrow> json" where
  "assign (JObj kvs) k v =
     JObj (if k \<in> fst ` set kvs then map (\<lambda>(k', v'). if k' = k then (k', v) else (k', v')) kvs
           else kvs @ [(k, v)])"
| "assign d k v = d"

text \<open>\<^verbatim>\<open>xs.map(f)\<close> with an \<open>f\<close> that may throw: the first exception ends it.\<close>

fun js_map :: "('a \<Rightarrow> exn + 'b) \<Rightarrow> 'a list \<Rightarrow> exn + 'b list" where
  "js_map f [] = Inr []"
| "js_map f (x # xs) =
     (case f x of
        Inl e \<Rightarrow> Inl e
      | Inr y \<Rightarrow> (case js_map f xs of Inl e \<Rightarrow> Inl e | Inr ys \<Rightarrow> Inr (y # ys)))"

text \<open>Lines 294-311 of \<^verbatim>\<open>optimizeResponse\<close>: the \<^verbatim>\<open>version\<close> property of the
  result, if \<^verbatim>\<open>data.version\<close> is truthy.\<close>

definition version_of :: "json \<Rightarrow> (string \<times> json option) list" where
  "version_of data =
     (case get data ''version'' of
        None \<Rightarrow> []
      | Some version \<Rightarrow>
          if \<not> truthy (Some version) then []
          else
            [(''version'',
              Some (object_literal
                ([(''number'', get version ''number'')]
                 @ (case get version ''by'' of
                      None \<Rightarrow> []
                    | Some author \<Rightarrow>
                        if \<not> truthy (Some author) then []
                        else [(''by'',
                               Some (object_literal
                                 [(''displayName'', get author ''displayName''),
                                  (''username'',
                                   or_else (get author ''username'') (get author ''userKey''))]))])
                 @ (if truthy (get version ''when'') then [(''when'', get version ''when'')]
                    else []))))])"

text \<open>
  \<^verbatim>\<open>optimizeResponse(data, {fields: ["id", "title", "type", "status"], includeBody})\<close>,
  lines 264-321; every call in the methods translated here passes these \<^verbatim>\<open>fields\<close>.
  A falsy value and a truthy one that is neither array nor object are returned as they are;
  an array is mapped; of an object the four fields are copied, then \<^verbatim>\<open>body\<close> (with
  \<^verbatim>\<open>includeBody\<close>, when \<^verbatim>\<open>data.body?.storage?.value\<close> is truthy), \<^verbatim>\<open>version\<close>
  and \<^verbatim>\<open>webui\<close> are added. Only \<^verbatim>\<open>cleanHtmlToText\<close> can throw.
\<close>

fun optimizeResponse :: "runtime \<Rightarrow> bool \<Rightarrow> json \<Rightarrow> exn + json"
  and optimizeResponses :: "runtime \<Rightarrow> bool \<Rightarrow> json list \<Rightarrow> exn + json list" where
  "optimizeResponse rt includeBody (JArr items) =
     (case optimizeResponses rt includeBody items of
        Inl e \<Rightarrow> Inl e
      | Inr optimized \<Rightarrow> Inr (JArr optimized))"
| "optimizeResponse rt includeBody (JObj kvs) =
     (let data = JObj kvs;
          originalHtml = optional (optional (get data ''body'') ''storage'') ''value''
      in case (if includeBody \<and> truthy originalHtml
               then (case cleanHtmlToText rt originalHtml of
                       Inl e \<Rightarrow> Inl e
                     | Inr content \<Rightarrow>
                         Inr [(''body'',
                               Some (object_literal
                                 [(''content'', Some (JStr content)),
                                  (''originalLength'',
                                   case originalHtml of None \<Rightarrow> None | Some h \<Rightarrow> js_length h)]))])
               else Inr []) of
           Inl e \<Rightarrow> Inl e
         | Inr body \<Rightarrow>
             Inr (object_literal
                    (map (\<lambda>field. (field, get data field)) [''id'', ''title'', ''type'', ''status'']
                     @ body @ version_of data
                     @ (if truthy (optional (get data ''_links'') ''webui'')
                        then [(''webui'', optional (get data ''_links'') ''webui'')] else []))))"
| "optimizeResponse rt includeBody data = Inr data"
| "optimizeResponses rt includeBody [] = Inr []"
| "optimizeResponses rt includeBody (item # items) =
     (case optimizeResponse rt includeBody item of
        Inl e \<Rightarrow> Inl e
      | Inr x \<Rightarrow>
          (case optimizeResponses rt includeBody items of
             Inl e \<Rightarrow> Inl e
           | Inr xs \<Rightarrow> Inr (x # xs)))"

text \<open>The callback of \<^verbatim>\<open>searchPagesCompact\<close>, lines 492-507: the read of
  \<^verbatim>\<open>item.space\<close> throws on an item that is \<^verbatim>\<open>null\<close>.\<close>

definition compact_item :: "runtime \<Rightarrow> json \<Rightarrow> exn + json" where
  "compact_item rt item =
     (case optimizeResponse rt False item of
        Inl e \<Rightarrow> Inl e
      | Inr optimized \<Rightarrow>
          (case read_prop item ''space'' of
             Inl e \<Rightarrow> Inl e
           | Inr None \<Rightarrow> Inr optimized
           | Inr (Some space) \<Rightarrow>
               if truthy (Some space)
               then Inr (assign optimized ''space''
                          (object_literal [(''key'', get space ''key''), (''name'', get space ''name'')]))
               else Inr optimized))"

text \<open>
  \<^verbatim>\<open>if (result.results) { result.results = result.results.map(f); }\<close>, lines 491-508,
  560-567 and 616-623. \<open>result\<close> is the very object the cache holds under the key of the
  request (\<^verbatim>\<open>makeRequest\<close> returned it from the cache, or stored it there before it
  returned it), so the assignment changes the cache entry as well: \<open>replace_cached\<close>. The
  read of \<^verbatim>\<open>result.results\<close> throws when the backend's answer is \<^verbatim>\<open>null\<close>, and
  \<^verbatim>\<open>map\<close> is a function only of an array.
\<close>

definition replace_cached :: "string \<Rightarrow> json \<Rightarrow> world \<Rightarrow> world" where
  "replace_cached cacheKey data w =
     (case cache w cacheKey of
        None \<Rightarrow> w
      | Some (old, timestamp) \<Rightarrow> w\<lparr>cache := (cache w)(cacheKey \<mapsto> (data, timestamp))\<rparr>)"

definition map_results ::
  "(json \<Rightarrow> exn + json) \<Rightarrow> string \<Rightarrow> json \<Rightarrow> world \<Rightarrow> (exn + json) \<times> world" where
  "map_results f cacheKey result w =
     (case read_prop result ''results'' of
        Inl e \<Rightarrow> (Inl e, w)
      | Inr results \<Rightarrow>
          if \<not> truthy results then (Inr result, w)
          else
            (case results of
               Some (JArr items) \<Rightarrow>
                 (case js_map f items of
                    Inl e \<Rightarrow> (Inl e, w)
                  | Inr mapped \<Rightarrow>
                      (Inr (assign result ''results'' (JArr mapped)),
                       replace_cached cacheKey (assign result ''results'' (JArr mapped)) w))
             | _ \<Rightarrow> (Inl (TypeError ''result.results.map is not a function''), w)))"

text \<open>The object the three search methods return:
  \<^verbatim>\<open>{results: result.results || [], size: result.size || 0, limit: result.limit || limit, ...}\<close>.\<close>

definition search_result :: "json \<Rightarrow> json \<Rightarrow> (string \<times> json option) list \<Rightarrow> json" where
  "search_result result limit extra =
     object_literal
       ([(''results'', or_else (get result ''results'') (Some (JArr []))),
         (''size'', or_else (get result ''size'') (Some (JNum 0))),
         (''limit'', or_else (get result ''limit'') (Some limit))] @ extra)"

section \<open>The Confluence adapter: search strategies\<close>

text \<open>\<^verbatim>\<open>validateAndOptimizeCQL\<close>, lines 581-606.\<close>

definition validateAndOptimizeCQL :: "runtime \<Rightarrow> string \<Rightarrow> exn + string" where
  "validateAndOptimizeCQL rt query =
     (let cleanedQuery = js_trim query
      in if re_test rt DuplicateSpace cleanedQuery \<or> re_test rt EmptyParens cleanedQuery
            \<or> re_test rt DoubledOperator cleanedQuery
         then Inl (Error (''Invalid CQL pattern detected: '' @ cleanedQuery))
         else Inr (re_replace rt CqlOr (\<lambda>g. '' OR '')
                    (re_replace rt CqlAnd (\<lambda>g. '' AND '')
                      (re_replace rt CqlTilde (\<lambda>g. '' ~ '')
                        (re_replace rt CqlEquals (\<lambda>g. '' = '')
                          (re_replace rt CqlSpaces (\<lambda>g. '' '') cleanedQuery))))))"

text \<open>\<^verbatim>\<open>s.replace(/c/g, r)\<close> for one code unit \<open>c\<close>.\<close>

definition replace_char :: "char \<Rightarrow> string \<Rightarrow> string \<Rightarrow> string" where
  "replace_char c r s = concat (map (\<lambda>x. if x = c then r else [x]) s)"

text \<open>The encoding of the query in \<^verbatim>\<open>searchPagesCompact\<close>, lines 470-482.\<close>

definition encode_cql :: "runtime \<Rightarrow> string \<Rightarrow> string" where
  "encode_cql rt cleanedQuery =
     (if js_includes (toLowerCase rt cleanedQuery) ''space =''
         \<or> js_includes (toLowerCase rt cleanedQuery) ''space=''
      then replace_char CHR ''='' ''%3D''
             (replace_char CHR '' '' ''%20'' (replace_char CHR 0x22 ''%22'' cleanedQuery))
      else encodeURIComponent rt cleanedQuery)"

definition search_endpoint :: "runtime \<Rightarrow> string \<Rightarrow> json \<Rightarrow> exn + string" where
  "search_endpoint rt encodedQuery limit =
     (case json_str rt limit of
        Inl e \<Rightarrow> Inl e
      | Inr l \<Rightarrow> Inr (''/content/search?cql='' @ encodedQuery @ ''&limit='' @ l))"

text \<open>\<^verbatim>\<open>searchPagesSimple\<close>, lines 534-578. Its \<^verbatim>\<open>catch\<close> rewraps every failure.\<close>

definition simple_query :: "runtime \<Rightarrow> string \<Rightarrow> string" where
  "simple_query rt query =
     (if js_includes query ''title ~'' then
        (case re_match rt TitleTilde query of
           Some titleMatch \<Rightarrow> ''title ~ '' @ [CHR 0x22] @ titleMatch 1 @ [CHR 0x22]
         | None \<Rightarrow> [])
      else if js_includes query ''text ~'' then
        (case re_match rt TextTilde query of
           Some textMatch \<Rightarrow> ''text ~ '' @ [CHR 0x22] @ textMatch 1 @ [CHR 0x22]
         | None \<Rightarrow> [])
      else ''text ~ '' @ [CHR 0x22] @ js_trim (re_replace rt NotWordOrSpace (\<lambda>g. []) query)
             @ [CHR 0x22])"

definition conf_searchPagesSimple ::
  "runtime \<Rightarrow> string \<Rightarrow> json \<Rightarrow> world \<Rightarrow> (exn + json) \<times> world" where
  "conf_searchPagesSimple rt query limit w =
     (case search_endpoint rt (encodeURIComponent rt (simple_query rt query)) limit of
        Inl error \<Rightarrow> (Inl (Error (''Simple search also failed: '' @ message error)), w)
      | Inr endpoint \<Rightarrow>
          (case conf_makeRequest rt endpoint ''GET'' JNull w of
             (Inl error, w') \<Rightarrow> (Inl (Error (''Simple search also failed: '' @ message error)), w')
           | (Inr result, w') \<Rightarrow>
               (case map_results (optimizeResponse rt False) (get_key rt endpoint) result w' of
                  (Inl error, w'') \<Rightarrow>
                    (Inl (Error (''Simple search also failed: '' @ message error)), w'')
                | (Inr result', w'') \<Rightarrow>
                    (Inr (search_result result' limit
                            [(''note'',
                              Some (JStr ''Fallback search used due to complex query failure''))]),
                     w''))))"

text \<open>\<^verbatim>\<open>searchBySpaceAndTitle\<close>, lines 609-634.\<close>

definition conf_searchBySpaceAndTitle ::
  "runtime \<Rightarrow> string \<Rightarrow> string \<Rightarrow> json \<Rightarrow> world \<Rightarrow> (exn + json) \<times> world" where
  "conf_searchBySpaceAndTitle rt spaceKey titleSearchTerm limit w =
     (case json_str rt limit of
        Inl error \<Rightarrow> (Inl error, w)
      | Inr l \<Rightarrow>
          (let endpoint = ''/content?spaceKey='' @ spaceKey @ ''&title=''
                            @ encodeURIComponent rt titleSearchTerm @ ''&limit='' @ l @ ''&type=page''
           in case conf_makeRequest rt endpoint ''GET'' JNull w of
                (Inl error, w') \<Rightarrow> (Inl error, w')
              | (Inr result, w') \<Rightarrow>
                  (case map_results (optimizeResponse rt False) (get_key rt endpoint) result w' of
                     (Inl error, w'') \<Rightarrow> (Inl error, w'')
                   | (Inr result', w'') \<Rightarrow>
                       (Inr (search_result result' limit
                               [(''method'', Some (JStr ''spaceKey parameter search''))]),
                        w''))))"

text \<open>The \<^verbatim>\<open>try\<close> block of \<^verbatim>\<open>searchPagesCompact\<close>, lines 464-514: the structured
  query as given.\<close>

definition cql_attempt :: "runtime \<Rightarrow> string \<Rightarrow> json \<Rightarrow> world \<Rightarrow> (exn + json) \<times> world" where
  "cql_attempt rt query limit w =
     (case validateAndOptimizeCQL rt query of
        Inl error \<Rightarrow> (Inl error, w)
      | Inr cleanedQuery \<Rightarrow>
          (case search_endpoint rt (encode_cql rt cleanedQuery) limit of
             Inl error \<Rightarrow> (Inl error, w)
           | Inr endpoint \<Rightarrow>
               (case conf_makeRequest rt endpoint ''GET'' JNull w of
                  (Inl error, w') \<Rightarrow> (Inl error, w')
                | (Inr result, w') \<Rightarrow>
                    (case map_results (compact_item rt) (get_key rt endpoint) result w' of
                       (Inl error, w'') \<Rightarrow> (Inl error, w'')
                     | (Inr result', w'') \<Rightarrow> (Inr (search_result result' limit []), w'')))))"

text \<open>The \<^verbatim>\<open>catch\<close> of \<^verbatim>\<open>searchPagesCompact\<close>, lines 515-530: the simple search is
  tried when the message holds \<^verbatim>\<open>500\<close>; its own failure is logged and dropped, and the
  first error is thrown again.\<close>

definition conf_searchPagesCompact ::
  "runtime \<Rightarrow> string \<Rightarrow> json \<Rightarrow> world \<Rightarrow> (exn + json) \<times> world" where
  "conf_searchPagesCompact rt query limit w =
     (case cql_attempt rt query limit w of
        (Inr r, w') \<Rightarrow> (Inr r, w')
      | (Inl error, w') \<Rightarrow>
          if js_includes (message error) ''500'' then
            (case conf_searchPagesSimple rt query limit w' of
               (Inr r, w'') \<Rightarrow> (Inr r, w'')
             | (Inl fallbackError, w'') \<Rightarrow> (Inl error, w''))
          else (Inl error, w'))"

text \<open>\<^verbatim>\<open>errors.join('; ')\<close>.\<close>

fun join_semicolon :: "string list \<Rightarrow> string" where
  "join_semicolon [] = []"
| "join_semicolon [s] = s"
| "join_semicolon (s # t # ss) = s @ ''; '' @ join_semicolon (t # ss)"

text \<open>\<^verbatim>\<open>advancedSearch\<close>, lines 637-670, for a query that is a string. The three
  strategies are written innermost first: \<open>search_strategy3\<close> is the simple search and
  the final \<^verbatim>\<open>throw\<close>, \<open>search_strategy2\<close> the space and title search, with the
  errors collected so far.\<close>

definition search_strategy3 ::
  "runtime \<Rightarrow> string \<Rightarrow> json \<Rightarrow> string list \<Rightarrow> world \<Rightarrow> (exn + json) \<times> world" where
  "search_strategy3 rt query limit errors w =
     (case conf_searchPagesSimple rt query limit w of
        (Inr r, w') \<Rightarrow> (Inr r, w')
      | (Inl error, w') \<Rightarrow>
          (Inl (Error (''All search methods failed: ''
                  @ join_semicolon (errors @ [''Simple search: '' @ message error]))), w'))"

definition search_strategy2 ::
  "runtime \<Rightarrow> string \<Rightarrow> json \<Rightarrow> string list \<Rightarrow> world \<Rightarrow> (exn + json) \<times> world" where
  "search_strategy2 rt query limit errors w =
     (if js_includes (toLowerCase rt query) ''space'' then
        (case (re_match rt SpaceEquals query, re_match rt TitleTilde query) of
           (Some spaceMatch, Some titleMatch) \<Rightarrow>
             (case conf_searchBySpaceAndTitle rt (spaceMatch 1) (titleMatch 1) limit w of
                (Inr r, w') \<Rightarrow> (Inr r, w')
              | (Inl error, w') \<Rightarrow>
                  search_strategy3 rt query limit
                    (errors @ [''Space+Title search: '' @ message error]) w')
         | _ \<Rightarrow> search_strategy3 rt query limit errors w)
      else search_strategy3 rt query limit errors w)"

definition advancedSearch_string ::
  "runtime \<Rightarrow> string \<Rightarrow> json \<Rightarrow> world \<Rightarrow> (exn + json) \<times> world" where
  "advancedSearch_string rt query limit w =
     (case conf_searchPagesCompact rt query limit w of
        (Inr r, w') \<Rightarrow> (Inr r, w')
      | (Inl error, w') \<Rightarrow>
          search_strategy2 rt query limit [''CQL search: '' @ message error] w')"

text \<open>\<^verbatim>\<open>advancedSearch(query, limit = 10)\<close> as \<^verbatim>\<open>handleToolCall\<close> calls it, with
  \<^verbatim>\<open>args.query\<close> and \<^verbatim>\<open>args.limit\<close>. When the query is no string,
  \<^verbatim>\<open>query.trim()\<close> throws inside \<^verbatim>\<open>searchPagesCompact\<close>, which
  \<^verbatim>\<open>advancedSearch\<close> catches, and then \<^verbatim>\<open>query.toLowerCase()\<close> throws outside every
  \<^verbatim>\<open>try\<close>: no request is sent.\<close>

definition conf_advancedSearch ::
  "runtime \<Rightarrow> json option \<Rightarrow> json option \<Rightarrow> world \<Rightarrow> (exn + json) \<times> world" where
  "conf_advancedSearch rt query limit w =
     (case query of
        Some (JStr q) \<Rightarrow>
          advancedSearch_string rt q (case limit of None \<Rightarrow> JNum 10 | Some l \<Rightarrow> l) w
      | None \<Rightarrow>
          (Inl (TypeError (''Cannot read properties of undefined (reading '' @ [CHR 0x27] @ ''toLowerCase'' @ [CHR 0x27] @ '')'')), w)
      | Some JNull \<Rightarrow>
          (Inl (TypeError (''Cannot read properties of null (reading '' @ [CHR 0x27] @ ''toLowerCase'' @ [CHR 0x27] @ '')'')), w)
      | Some v \<Rightarrow> (Inl (TypeError ''query.toLowerCase is not a function''), w))"

text \<open>\<^verbatim>\<open>getPage\<close>, lines 424-436.\<close>

definition conf_getPage :: "runtime \<Rightarrow> json option \<Rightarrow> world \<Rightarrow> (exn + json) \<times> world" where
  "conf_getPage rt pageId w =
     (case to_str rt pageId of
        Inl error \<Rightarrow> (Inl error, w)
      | Inr i \<Rightarrow>
          (case conf_makeRequest rt (''/content/'' @ i @ ''?expand=body.storage,version'')
                  ''GET'' JNull w of
             (Inl error, w') \<Rightarrow> (Inl error, w')
           | (Inr result, w') \<Rightarrow> (optimizeResponse rt True result, w')))"

section \<open>The Confluence adapter: dispatcher\<close>

text \<open>The \<^verbatim>\<open>switch (name)\<close> of \<^verbatim>\<open>handleToolCall\<close>, lines 1198-1382. No case
  tests its arguments. \<^verbatim>\<open>getPage\<close> and \<^verbatim>\<open>advancedSearch\<close> are the translations
  above, the other methods go through \<open>api\<close>.\<close>

definition conf_switch :: "runtime \<Rightarrow> json option \<Rightarrow> json \<Rightarrow> world \<Rightarrow> (exn + json) \<times> world" where
  "conf_switch rt name args w =
     (if name = Some (JStr ''get_spaces'') then
        tool_case rt args [] [] ''getSpacesCompact'' [''limit''] w
      else if name = Some (JStr ''get_page'') then
        (case read_prop args ''pageId'' of
           Inl e \<Rightarrow> (Inl e, w)
         | Inr pageId \<Rightarrow> conf_getPage rt pageId w)
      else if name = Some (JStr ''search_pages'') then
        (case read_prop args ''query'' of
           Inl e \<Rightarrow> (Inl e, w)
         | Inr query \<Rightarrow>
             (case read_prop args ''limit'' of
                Inl e \<Rightarrow> (Inl e, w)
              | Inr limit \<Rightarrow> conf_advancedSearch rt query limit w))
      else if name = Some (JStr ''create_page'') then
        tool_case rt args [] [] ''createPage'' [''spaceKey'', ''title'', ''content'', ''parentPageId''] w
      else if name = Some (JStr ''update_page'') then
        tool_case rt args [] [] ''updatePage'' [''pageId'', ''title'', ''content'', ''version''] w
      else if name = Some (JStr ''delete_page'') then
        tool_case rt args [] [] ''deletePage'' [''pageId''] w
      else if name = Some (JStr ''get_page_history'') then
        tool_case rt args [] [] ''getPageHistory'' [''pageId'', ''limit''] w
      else if name = Some (JStr ''get_child_pages'') then
        tool_case rt args [] [] ''getChildPagesCompact'' [''pageId'', ''limit''] w
      else if name = Some (JStr ''get_page_comments'') then
        tool_case rt args [] [] ''getPageComments'' [''pageId'', ''limit''] w
      else if name = Some (JStr ''add_page_comment'') then
        tool_case rt args [] [] ''addPageComment'' [''pageId'', ''comment''] w
      else if name = Some (JStr ''get_space_pages'') then
        tool_case rt args [] [] ''getSpacePages'' [''spaceKey'', ''limit'', ''start''] w
      else if name = Some (JStr ''get_page_labels'') then
        tool_case rt args [] [] ''getPageLabels'' [''pageId''] w
      else if name = Some (JStr ''add_page_label'') then
        tool_case rt args [] [] ''addPageLabel'' [''pageId'', ''labels''] w
      else if name = Some (JStr ''get_page_attachments'') then
        tool_case rt args [] [] ''getPageAttachments'' [''pageId'', ''limit''] w
      else if name = Some (JStr ''get_recent_pages'') then
        tool_case rt args [] [] ''getRecentPages'' [''limit'', ''spaceKey''] w
      else if name = Some (JStr ''get_my_pages'') then
        tool_case rt args [] [] ''getMyPages'' [''limit'', ''spaceKey''] w
      else if name = Some (JStr ''get_pages_by_label'') then
        tool_case rt args [] [] ''getPagesByLabel'' [''label'', ''limit'', ''spaceKey''] w
      else if name = Some (JStr ''get_page_templates'') then
        tool_case rt args [] [] ''getPageTemplates'' [''spaceKey''] w
      else if name = Some (JStr ''get_space_details'') then
        tool_case rt args [] [] ''getSpaceDetails'' [''spaceKey''] w
      else (case to_str rt name of
              Inl e \<Rightarrow> (Inl e, w)
            | Inr n \<Rightarrow> (Inl (Error (''Unknown tool: '' @ n)), w)))"

text \<open>\<^verbatim>\<open>handleToolCall\<close>, lines 1194-1389: its \<^verbatim>\<open>catch\<close> returns the failure as
  content with \<^verbatim>\<open>isError: true\<close>.\<close>

definition conf_handleToolCall :: "runtime \<Rightarrow> json \<Rightarrow> world \<Rightarrow> (exn + response) \<times> world" where
  "conf_handleToolCall rt params w =
     (case destructure_params params of
        Inl e \<Rightarrow> (Inl e, w)
      | Inr (name, args) \<Rightarrow>
          (case conf_switch rt name args w of
             (Inl error, w') \<Rightarrow> (Inr (Content (''Error: '' @ message error) True), w')
           | (Inr result, w') \<Rightarrow> (Inr (Content (JSON_stringify rt 2 result) False), w')))"

text \<open>\<^verbatim>\<open>handleRequest\<close>, lines 1015-1192.\<close>

definition conf_handleRequest :: "runtime \<Rightarrow> json \<Rightarrow> world \<Rightarrow> (exn + response) \<times> world" where
  "conf_handleRequest rt request w =
     (case destructure_request request of
        Inl e \<Rightarrow> (Inl e, w)
      | Inr (method, params) \<Rightarrow>
          if method = Some (JStr ''initialize'') then
            (Inr (Descriptor ''confluence-optimized-v2'' ''2.0.0''), w)
          else if method = Some (JStr ''tools/list'') then (Inr (ToolList conf_tools), w)
          else if method = Some (JStr ''tools/call'') then conf_handleToolCall rt params w
          else (case to_str rt method of
                  Inl e \<Rightarrow> (Inl e, w)
                | Inr m \<Rightarrow> (Inl (Error (''Unknown method: '' @ m)), w)))"

text \<open>The \<^verbatim>\<open>catch\<close> of the dispatch loop, lines 1443-1465.\<close>

definition conf_error_code :: "string \<Rightarrow> int \<times> string" where
  "conf_error_code m =
     (if js_includes m ''Unknown method'' then (- 32601, ''Method not found'')
      else if js_includes m ''required'' \<or> js_includes m ''Invalid arguments''
        then (- 32602, ''Invalid params'')
      else (- 32603, ''Internal error''))"

text \<open>Lines 1410-1412: \<^verbatim>\<open>requestId = request.id !== undefined ? request.id : null\<close>.\<close>

definition id_unless_undefined :: "json option \<Rightarrow> json" where
  "id_unless_undefined i = (case i of Some v \<Rightarrow> v | None \<Rightarrow> JNull)"

definition conf_decode :: "runtime \<Rightarrow> string \<Rightarrow> exn + json \<times> json" where
  "conf_decode rt line =
     (case JSON_parse rt line of
        Inl e \<Rightarrow> Inl e
      | Inr request \<Rightarrow>
          (case read_prop request ''id'' of
             Inl e \<Rightarrow> Inl e
           | Inr i \<Rightarrow> Inr (request, id_unless_undefined i)))"

text \<open>
  Lines 1426-1430: \<^verbatim>\<open>request.method && (request.method.startsWith('notifications/') || request.method === 'initialized')\<close>.
  \<open>Some True\<close>: a notification; \<open>Some False\<close>: none; \<open>None\<close>: the method is truthy and
  no string, so \<^verbatim>\<open>startsWith\<close> is no function and the \<^verbatim>\<open>TypeError\<close> leaves the
  handler, which no \<^verbatim>\<open>try\<close> encloses at this point.
\<close>

definition is_notification :: "json \<Rightarrow> bool option" where
  "is_notification request =
     (let method = get request ''method''
      in if \<not> truthy method then Some False
         else (case method of
                 Some (JStr m) \<Rightarrow> Some (startsWith m ''notifications/'' \<or> m = ''initialized'')
               | _ \<Rightarrow> None))"

text \<open>The loop body for a line that is not blank, lines 1407-1465. The third component
  says that the handler was left by an uncaught exception.\<close>

definition conf_line :: "runtime \<Rightarrow> string \<Rightarrow> world \<Rightarrow> reply list \<times> world \<times> bool" where
  "conf_line rt line w =
     (case conf_decode rt line of
        Inl parseError \<Rightarrow>
          ([Failure JNull (- 32700) ''Parse error'' (Some (message parseError))], w, False)
      | Inr (request, requestId) \<Rightarrow>
          (case is_notification request of
             None \<Rightarrow> ([], w, True)
           | Some True \<Rightarrow> ([], w, False)
           | Some False \<Rightarrow>
               (case conf_handleRequest rt request w of
                  (Inr response, w') \<Rightarrow>
                    (if requestId \<noteq> JNull then [Success requestId response] else [], w', False)
                | (Inl error, w') \<Rightarrow>
                    (case conf_error_code (message error) of
                       (errorCode, errorMessage) \<Rightarrow>
                         ([Failure requestId errorCode errorMessage (Some (message error))],
                          w', False)))))"

fun conf_lines :: "runtime \<Rightarrow> string list \<Rightarrow> world \<Rightarrow> reply list \<times> world \<times> bool" where
  "conf_lines rt [] w = ([], w, False)"
| "conf_lines rt (line # lines) w =
     (if blank line then conf_lines rt lines w
      else (case conf_line rt line w of
              (out, w', True) \<Rightarrow> (out, w', True)
            | (out, w', False) \<Rightarrow>
                (case conf_lines rt lines w' of (out', w'', a) \<Rightarrow> (out @ out', w'', a))))"

definition conf_on_data ::
  "runtime \<Rightarrow> string \<times> world \<Rightarrow> string \<Rightarrow> reply list \<times> (string \<times> world) \<times> bool" where
  "conf_on_data rt st data =
     (case frame (fst st) data of
        (lines, buffer') \<Rightarrow>
          (case conf_lines rt lines (snd st) of (out, w', a) \<Rightarrow> (out, (buffer', w'), a)))"

section \<open>The legacy Jira adapter v1.2.0: the \<^verbatim>\<open>'data'\<close> handler\<close>

text \<open>
  \<^verbatim>\<open>src/unnamed/part_000\<close> lines 748-773. One \<^verbatim>\<open>try\<close> encloses the whole loop; its
  \<^verbatim>\<open>catch\<close> writes \<^verbatim>\<open>{jsonrpc, id: null, error: {code: -32603, message}}\<close>. The
  reply to a request carries \<^verbatim>\<open>request.id\<close> as it is (an absent id, which
  \<^verbatim>\<open>JSON.stringify\<close> leaves out, is shown as \<open>JNull\<close>). The legacy
  \<^verbatim>\<open>handleRequest\<close> is the parameter \<open>h\<close>: the two claims about this handler concern
  the code around it. The loop returns the replies written, the world, and the exception
  that ended it, if one did.
\<close>

fun legacy_loop ::
  "(json \<Rightarrow> world \<Rightarrow> (exn + response) \<times> world) \<Rightarrow> runtime \<Rightarrow> string list \<Rightarrow> world
     \<Rightarrow> reply list \<times> world \<times> exn option" where
  "legacy_loop h rt [] w = ([], w, None)"
| "legacy_loop h rt (line # lines) w =
     (if blank line then legacy_loop h rt lines w
      else
        (case JSON_parse rt line of
           Inl e \<Rightarrow> ([], w, Some e)
         | Inr request \<Rightarrow>
             (case h request w of
                (Inl e, w') \<Rightarrow> ([], w', Some e)
              | (Inr response, w') \<Rightarrow>
                  (case read_prop request ''id'' of
                     Inl e \<Rightarrow> ([], w', Some e)
                   | Inr i \<Rightarrow>
                       (case legacy_loop h rt lines w' of
                          (out, w'', x) \<Rightarrow>
                            (Success (case i of Some v \<Rightarrow> v | None \<Rightarrow> JNull) response # out, w'', x))))))"

definition legacy_on_data ::
  "(json \<Rightarrow> world \<Rightarrow> (exn + response) \<times> world) \<Rightarrow> runtime \<Rightarrow> world \<Rightarrow> string
     \<Rightarrow> reply list \<times> world" where
  "legacy_on_data h rt w data =
     (case legacy_loop h rt (split_nl (js_trim data)) w of
        (out, w', None) \<Rightarrow> (out, w')
      | (out, w', Some error) \<Rightarrow> (out @ [Failure JNull (- 32603) (message error) None], w'))"

section \<open>The Jira adapters: \<^verbatim>\<open>htmlToText\<close>\<close>

text \<open>
  \<^verbatim>\<open>cleanText.split(/[.!?]\s+/)\<close>: a separator is one of \<^verbatim>\<open>.\<close>, \<^verbatim>\<open>!\<close>,
  \<^verbatim>\<open>?\<close> followed by white space, with all the white space that follows. The first
  argument says that the white space of a separator is being skipped, the second holds the
  piece read so far, in reverse.
\<close>

definition terminator :: "char \<Rightarrow> bool" where
  "terminator c \<longleftrightarrow> c = CHR ''.'' \<or> c = CHR ''!'' \<or> c = CHR ''?''"

fun split_sentences_from :: "bool \<Rightarrow> string \<Rightarrow> string \<Rightarrow> string list" where
  "split_sentences_from skip piece [] = [rev piece]"
| "split_sentences_from skip piece (c # cs) =
     (if skip \<and> is_ws c then split_sentences_from True piece cs
      else if terminator c \<and> (case cs of [] \<Rightarrow> False | d # ds \<Rightarrow> is_ws d)
        then rev piece # split_sentences_from True [] cs
      else split_sentences_from False (c # piece) cs)"

definition split_sentences :: "string \<Rightarrow> string list" where
  "split_sentences s = split_sentences_from False [] s"

text \<open>The loop of \<^verbatim>\<open>htmlToText\<close> (\<^verbatim>\<open>src/mcp/jira/index.js\<close> lines 131-136,
  \<^verbatim>\<open>src/unnamed/part_000\<close> lines 113-118):
  \<^verbatim>\<open>if ((summary + sentence).length > 400) break; if (sentence.trim()) summary += sentence.trim() + '. ';\<close>\<close>

fun accumulate :: "string \<Rightarrow> string list \<Rightarrow> string" where
  "accumulate summary [] = summary"
| "accumulate summary (sentence # sentences) =
     (if 400 < length (summary @ sentence) then summary
      else accumulate
             (if js_trim sentence \<noteq> [] then summary @ js_trim sentence @ ''. '' else summary)
             sentences)"

text \<open>Lines 126-141 of \<^verbatim>\<open>src/mcp/jira/index.js\<close>, 108-123 of
  \<^verbatim>\<open>src/unnamed/part_000\<close>, the same text in both.\<close>

definition summarise :: "string \<Rightarrow> string" where
  "summarise cleanText =
     (if 500 < length cleanText then
        (let summary = accumulate [] (split_sentences cleanText)
         in js_trim summary @ (if length summary < length cleanText then ''...'' else []))
      else cleanText)"

text \<open>The replacements after \<^verbatim>\<open>convert\<close> in v1.3.0, lines 121-124:
  \<^verbatim>\<open>.replace(/\n{3,}/g, '\n\n').replace(/\s*\n\s*/g, '\n').replace(/\s+/g, ' ').trim()\<close>.
  A match of the second pattern is a whole run of white space that holds a newline.\<close>

definition collapse_newlines :: "string \<Rightarrow> string" where
  "collapse_newlines s =
     map_runs (\<lambda>c. c = CHR 0x0A) (\<lambda>run. if 3 \<le> length run then [CHR 0x0A, CHR 0x0A] else run) [] s"

definition trim_around_newlines :: "string \<Rightarrow> string" where
  "trim_around_newlines s =
     map_runs is_ws (\<lambda>run. if CHR 0x0A \<in> set run then [CHR 0x0A] else run) [] s"

definition collapse_ws :: "string \<Rightarrow> string" where
  "collapse_ws s = map_runs is_ws (\<lambda>run. '' '') [] s"

definition jira_cleanText :: "string \<Rightarrow> string" where
  "jira_cleanText converted =
     js_trim (collapse_ws (trim_around_newlines (collapse_newlines converted)))"

text \<open>\<^verbatim>\<open>htmlToText(html)\<close> of v1.3.0, lines 46-142, for a string; \<^verbatim>\<open>!html\<close> holds of
  the empty string. No \<^verbatim>\<open>try\<close> encloses \<^verbatim>\<open>convert\<close>.\<close>

definition jira_htmlToText :: "runtime \<Rightarrow> string \<Rightarrow> exn + string" where
  "jira_htmlToText rt html =
     (if html = [] then Inr []
      else (case convert rt JiraOptions html of
              Inl e \<Rightarrow> Inl e
            | Inr converted \<Rightarrow> Inr (summarise (jira_cleanText converted))))"

text \<open>The replacements of the legacy adapter, \<^verbatim>\<open>src/unnamed/part_000\<close> lines 103-106:
  \<^verbatim>\<open>.replace(/\n\s*\n\s*\n/g, '\n\n').replace(/\s+/g, ' ').replace(/^\s+|\s+$/g, '').trim()\<close>.
  A match of the first pattern runs from the first to the last newline of a run of white
  space that holds three newlines or more.\<close>

definition legacy_blank_lines :: "string \<Rightarrow> string" where
  "legacy_blank_lines s =
     map_runs is_ws
       (\<lambda>run. if 3 \<le> length (filter (\<lambda>c. c = CHR 0x0A) run)
               then takeWhile (\<lambda>c. c \<noteq> CHR 0x0A) run @ [CHR 0x0A, CHR 0x0A]
                      @ rev (takeWhile (\<lambda>c. c \<noteq> CHR 0x0A) (rev run))
               else run) [] s"

definition legacy_cleanText :: "string \<Rightarrow> string" where
  "legacy_cleanText converted = js_trim (js_trim (collapse_ws (legacy_blank_lines converted)))"

definition legacy_htmlToText :: "runtime \<Rightarrow> string \<Rightarrow> exn + string" where
  "legacy_htmlToText rt html =
     (if html = [] then Inr []
      else (case convert rt LegacyJiraOptions html of
              Inl e \<Rightarrow> Inl e
            | Inr converted \<Rightarrow> Inr (summarise (legacy_cleanText converted))))"

section \<open>Notions of the specification\<close>

text \<open>The values a template literal cannot print: an object with a property
  \<^verbatim>\<open>toString\<close> of its own, and an array that holds such a value. This definition is not
  a translation of code; the amended claim C3 speaks of these values.\<close>

fun unprintable :: "json \<Rightarrow> bool" where
  "unprintable (JObj kvs) = (''toString'' \<in> fst ` set kvs)"
| "unprintable (JArr xs) = (\<exists>x\<in>set xs. unprintable x)"
| "unprintable v = False"

text \<open>
  The specification's words for the summary of a long document, "whole sentences
  accumulated": the sentences \<open>ss\<close>, each trimmed and closed by a full stop and a space,
  the blank ones left out. This definition is not a translation of code; claim C6 compares the
  loop \<open>accumulate\<close> with it.
\<close>

definition whole_sentences :: "string list \<Rightarrow> string" where
  "whole_sentences ss =
     concat (map (\<lambda>s. js_trim s @ ''. '') (filter (\<lambda>s. js_trim s \<noteq> []) ss))"

text \<open>
  The specification's "sentence boundary": one of \<^verbatim>\<open>.\<close>, \<^verbatim>\<open>!\<close>, \<^verbatim>\<open>?\<close>
  followed by white space, with all the white space that follows it. A text is free of
  boundaries when no terminator in it is followed by white space. The sentences \<open>ps\<close> of a
  text \<open>s\<close>, with the boundaries \<open>bs\<close> between them: the text is the sentences and the
  boundaries in turn, \<open>weave ps bs\<close>; every sentence is free of boundaries; and no sentence
  after a boundary begins with white space, which belongs to the boundary. These definitions
  are not translations of code either: claim C6 compares the regular expression of the code,
  \<open>split_sentences\<close>, with them.
\<close>

fun boundary :: "string \<Rightarrow> bool" where
  "boundary [] = False"
| "boundary (t # ws) = (terminator t \<and> ws \<noteq> [] \<and> list_all is_ws ws)"

fun boundary_free :: "string \<Rightarrow> bool" where
  "boundary_free [] = True"
| "boundary_free [c] = True"
| "boundary_free (c # d # cs) = (\<not> (terminator c \<and> is_ws d) \<and> boundary_free (d # cs))"

fun weave :: "string list \<Rightarrow> string list \<Rightarrow> string" where
  "weave [] bs = []"
| "weave (p # ps) [] = p"
| "weave (p # ps) (b # bs) = p @ b @ weave ps bs"

definition starts_with_ws :: "string \<Rightarrow> bool" where
  "starts_with_ws s = (case s of [] \<Rightarrow> False | c # cs \<Rightarrow> is_ws c)"

definition sentences_of :: "string \<Rightarrow> string list \<Rightarrow> string list \<Rightarrow> bool" where
  "sentences_of s ps bs \<longleftrightarrow>
     length ps = Suc (length bs) \<and> weave ps bs = s
     \<and> list_all boundary_free ps \<and> list_all boundary bs
     \<and> list_all (\<lambda>p. \<not> starts_with_ws p) (tl ps)"

text \<open>The request \<^verbatim>\<open>makeRequest(endpoint)\<close> sends.\<close>

definition get_call :: "string \<Rightarrow> http_call" where
  "get_call endpoint = Http ''GET'' endpoint (Some JNull)"

section \<open>A concrete runtime for the examples\<close>

text \<open>The examples below run the adapters on concrete lines. \<open>example_documents\<close>
  lists the JSON texts they use with the value \<^verbatim>\<open>JSON.parse\<close> gives each; every other
  text is rejected. \<open>example_encode\<close> is \<^verbatim>\<open>encodeURIComponent\<close> on strings whose only
  reserved characters are the space, the double quote and the equals sign.\<close>

definition example_documents :: "(string \<times> json) list" where
  \<open>example_documents =
    [(''{"jsonrpc":"2.0","method":"notifications/initialized"}'',
      JObj [(''jsonrpc'', JStr ''2.0''), (''method'', JStr ''notifications/initialized'')]),
     (''{"jsonrpc":"2.0","method":"ping"}'',
      JObj [(''jsonrpc'', JStr ''2.0''), (''method'', JStr ''ping'')]),
     (''{"jsonrpc":"2.0","id":1,"method":"tools/list"}'',
      JObj [(''jsonrpc'', JStr ''2.0''), (''id'', JNum 1), (''method'', JStr ''tools/list'')]),
     (''{"jsonrpc":"2.0","id":0,"method":"tools/list"}'',
      JObj [(''jsonrpc'', JStr ''2.0''), (''id'', JNum 0), (''method'', JStr ''tools/list'')]),
     (''{"jsonrpc":"2.0","id":4,"method":"resources/list"}'',
      JObj [(''jsonrpc'', JStr ''2.0''), (''id'', JNum 4), (''method'', JStr ''resources/list'')]),
     (''{"jsonrpc":"2.0","id":3,"method":"tools/call","params":{"name":"frobnicate"}}'',
      JObj [(''jsonrpc'', JStr ''2.0''), (''id'', JNum 3), (''method'', JStr ''tools/call''),
            (''params'', JObj [(''name'', JStr ''frobnicate'')])]),
     (''{"jsonrpc":"2.0","id":5,"method":{"toString":0}}'',
      JObj [(''jsonrpc'', JStr ''2.0''), (''id'', JNum 5),
            (''method'', JObj [(''toString'', JNum 0)])]),
     (''{"jsonrpc":"2.0","id":6,"method":"tools/call","params":{"name":"required"}}'',
      JObj [(''jsonrpc'', JStr ''2.0''), (''id'', JNum 6), (''method'', JStr ''tools/call''),
            (''params'', JObj [(''name'', JStr ''required'')])]),
     (''{"jsonrpc":"2.0","id":1,"method":"tools/call","params":{"name":"get_page","arguments":{}}}'',
      JObj [(''jsonrpc'', JStr ''2.0''), (''id'', JNum 1), (''method'', JStr ''tools/call''),
            (''params'', JObj [(''name'', JStr ''get_page''), (''arguments'', JObj [])])]),
     (''{"jsonrpc":"2.0","id":2,"method":"tools/call","params":{"name":"get_issue","arguments":{}}}'',
      JObj [(''jsonrpc'', JStr ''2.0''), (''id'', JNum 2), (''method'', JStr ''tools/call''),
            (''params'', JObj [(''name'', JStr ''get_issue''), (''arguments'', JObj [])])]),
     (''{"results":[]}'', JObj [(''results'', JArr [])]),
     (''{"results":[{"id":"42","title":"Guide","_links":{"webui":"/x/Guide"}}],"size":1}'',
      JObj [(''results'',
             JArr [JObj [(''id'', JStr ''42''), (''title'', JStr ''Guide''),
                         (''_links'', JObj [(''webui'', JStr ''/x/Guide'')])]]),
            (''size'', JNum 1)]),
     (''null'', JNull)]\<close>

definition example_parse :: "string \<Rightarrow> exn + json" where
  "example_parse s =
     (case map_of example_documents s of
        Some v \<Rightarrow> Inr v
      | None \<Rightarrow> Inl (SyntaxError ''Unexpected token''))"

definition example_stringify :: "nat \<Rightarrow> json \<Rightarrow> string" where
  \<open>example_stringify n v =
     (if v = JObj [(''method'', JStr ''GET''), (''body'', JNull)]
      then ''{"method":"GET","body":null}'' else ''{}'')\<close>

definition example_encode :: "string \<Rightarrow> string" where
  "example_encode s =
     replace_char CHR ''='' ''%3D'' (replace_char CHR '' '' ''%20'' (replace_char CHR 0x22 ''%22'' s))"

text \<open>A runtime whose backend refuses every connection, whose regular expressions never
  match and whose clock stands still. The examples print no number but safe integers, so
  its \<open>Number_toString\<close> is never called.\<close>

definition example_rt :: runtime where
  "example_rt =
     \<lparr>JSON_parse = example_parse,
      JSON_stringify = example_stringify,
      Number_toString = (\<lambda>x. []),
      convert = (\<lambda>opts s. Inr s),
      encodeURIComponent = example_encode,
      toLowerCase = (\<lambda>s. s),
      re_test = (\<lambda>r s. False),
      re_replace = (\<lambda>r f s. s),
      re_match = (\<lambda>r s. None),
      https_request = (\<lambda>history c. NetError ''connect ECONNREFUSED''),
      clock = (\<lambda>n. 0),
      api = (\<lambda>c w. (Inr JNull, w))\<rparr>"

definition world0 :: world where
  "world0 = \<lparr>calls = [], cache = (\<lambda>k. None), ticks = 0\<rparr>"

text \<open>A cleaned text of 602 code units: two sentences of 300 letters each.\<close>

definition long_text :: string where
  "long_text = replicate 300 CHR ''a'' @ ''. '' @ replicate 300 CHR ''b''"

text \<open>A backend that answers every request with status 404; \<^verbatim>\<open>/[^\w\s...]/g\<close>
  deletes the equals sign, the only such character of the query used with it.\<close>

definition rt_404 :: runtime where
  "rt_404 =
     example_rt
       \<lparr>https_request := (\<lambda>history c. Response 404 ''Not Found''),
        re_replace :=
          (\<lambda>r f s. if r = NotWordOrSpace then filter (\<lambda>c. c \<noteq> CHR ''='') s else s)\<rparr>"

text \<open>A backend that answers every request with status 503.\<close>

definition rt_503 :: runtime where
  "rt_503 = example_rt\<lparr>https_request := (\<lambda>history c. Response 503 ''Service Unavailable'')\<rparr>"

text \<open>A backend that answers every request with status 200 and the body \<^verbatim>\<open>null\<close>.\<close>

definition rt_null_body :: runtime where
  "rt_null_body = example_rt\<lparr>https_request := (\<lambda>history c. Response 200 ''null'')\<rparr>"

text \<open>A backend that answers its first request with status 404 and every later one with
  an empty result list; \<^verbatim>\<open>/[^\w\s...]/g\<close> deletes the equals sign, the only such
  character of the query used.\<close>

definition rt_404_then_ok :: runtime where
  \<open>rt_404_then_ok =
     example_rt
       \<lparr>https_request :=
          (\<lambda>history c. if history = [] then Response 404 ''Not Found''
                        else Response 200 ''{"results":[]}''),
        re_replace :=
          (\<lambda>r f s. if r = NotWordOrSpace then filter (\<lambda>c. c \<noteq> CHR ''='') s else s)\<rparr>\<close>

text \<open>A backend that answers every request with an empty result list, and a clock whose
  first two readings are 0 and whose later readings are 300000, the time to live.\<close>

definition rt_ok :: runtime where
  \<open>rt_ok =
     example_rt
       \<lparr>https_request := (\<lambda>history c. Response 200 ''{"results":[]}''),
        clock := (\<lambda>n. if n < 2 then 0 else 300000)\<rparr>\<close>

text \<open>A runtime whose \<^verbatim>\<open>convert\<close> throws, and whose regular expressions do on the
  text \<^verbatim>\<open><b>bold\<close> what the real ones do: only \<^verbatim>\<open>/<[^>]*>/g\<close> matches.\<close>

definition rt_convert_throws :: runtime where
  "rt_convert_throws =
     example_rt
       \<lparr>convert := (\<lambda>opts s. Inl (Error ''Unexpected end of input'')),
        re_replace := (\<lambda>r f s. if r = AnyTag \<and> s = ''<b>bold'' then ''bold'' else s)\<rparr>"

text \<open>A backend that answers its first request with status 500 and every later one with
  an empty result list.\<close>

definition rt_500_then_ok :: runtime where
  \<open>rt_500_then_ok =
     example_rt
       \<lparr>https_request :=
          (\<lambda>history c. if history = [] then Response 500 ''Internal Server Error''
                        else Response 200 ''{"results":[]}''),
        re_replace :=
          (\<lambda>r f s. if r = NotWordOrSpace then filter (\<lambda>c. c \<noteq> CHR ''='') s else s)\<rparr>\<close>

text \<open>A backend that answers its first request with status 400 and every later one with
  an empty result list, and a runtime that treats the queries \<open>space_title_query\<close> and
  \<open>space_query\<close> as the real one does: both are in normal form already, the patterns of
  \<^verbatim>\<open>advancedSearch\<close> match the first, only the one for the space matches the second,
  and \<^verbatim>\<open>/[^\w\s...]/g\<close> deletes the equals sign and the double quotes.\<close>

definition space_title_query :: string where
  \<open>space_title_query = ''space = "DEV" AND title ~ "guide"''\<close>

definition space_query :: string where
  \<open>space_query = ''space = "DEV"''\<close>

definition rt_space_title :: runtime where
  \<open>rt_space_title =
     example_rt
       \<lparr>https_request :=
          (\<lambda>history c. if history = [] then Response 400 ''Bad Request''
                        else Response 200 ''{"results":[]}''),
        toLowerCase :=
          (\<lambda>s. if s = space_title_query then ''space = "dev" and title ~ "guide"''
                else if s = space_query then ''space = "dev"'' else s),
        re_replace :=
          (\<lambda>r f s. if r = NotWordOrSpace then filter (\<lambda>c. c \<noteq> CHR ''='' \<and> c \<noteq> CHR 0x22) s
                    else s),
        re_match :=
          (\<lambda>r s. if r = SpaceEquals \<and> (s = space_title_query \<or> s = space_query)
                     then Some (\<lambda>n. if n = 0 then ''space = "DEV"'' else if n = 1 then ''DEV'' else [])
                   else if r = TitleTilde \<and> s = space_title_query
                     then Some (\<lambda>n. if n = 0 then ''title ~ "guide"'' else if n = 1 then ''guide'' else [])
                   else None)\<rparr>\<close>

text \<open>A backend that answers every request with one page.\<close>

definition rt_guide :: runtime where
  \<open>rt_guide =
     example_rt
       \<lparr>https_request :=
          (\<lambda>history c. Response 200
             ''{"results":[{"id":"42","title":"Guide","_links":{"webui":"/x/Guide"}}],"size":1}'')\<rparr>\<close>

chapter \<open>Properties\<close>

section \<open>The framer\<close>

lemma split_nl_not_Nil: "split_nl s \<noteq> []"
  by (induction s) (auto split: list.splits)

lemma split_nl_append:
  "split_nl (a @ b) = butlast (split_nl a) @ split_nl (last (split_nl a) @ b)"
proof (induction a)
  case Nil
  show ?case by simp
next
  case (Cons c a)
  obtain l ls where sp: "split_nl a = l # ls"
    using split_nl_not_Nil [of a] by (cases "split_nl a") auto
  obtain l' ls' where sp': "split_nl (a @ b) = l' # ls'"
    using split_nl_not_Nil [of "a @ b"] by (cases "split_nl (a @ b)") auto
  show ?case
  proof (cases "c = CHR 0x0A")
    case True
    then show ?thesis using Cons.IH split_nl_not_Nil [of a] by simp
  next
    case False
    show ?thesis
    proof (cases ls)
      case Nil
      with sp sp' Cons.IH False show ?thesis by simp
    next
      case (Cons x xs)
      with sp sp' Cons.IH False show ?thesis by auto
    qed
  qed
qed

lemma frame_eq:
  "frame buffer data = (butlast (split_nl (buffer @ data)), last (split_nl (buffer @ data)))"
proof -
  obtain l front where r: "rev (split_nl (buffer @ data)) = l # front"
    using split_nl_not_Nil [of "buffer @ data"] by (cases "rev (split_nl (buffer @ data))") auto
  then have s: "split_nl (buffer @ data) = rev front @ [l]"
    by (metis rev_rev_ident rev.simps(2))
  show ?thesis unfolding frame_def r s by simp
qed

lemma feed_eq:
  "feed (last (split_nl pre)) chunks =
     (candidates (butlast (split_nl (last (split_nl pre) @ concat chunks))),
      last (split_nl (last (split_nl pre) @ concat chunks)))"
proof (induction chunks arbitrary: pre)
  case Nil
  have "split_nl (last (split_nl pre)) = [last (split_nl pre)]"
    using split_nl_append [of pre "[]"] split_nl_not_Nil [of pre]
    by (metis append_butlast_last_id append_Nil2 same_append_eq)
  then show ?case by (simp add: candidates_def)
next
  case (Cons data chunks)
  let ?b = "last (split_nl pre)"
  have ih: "feed (last (split_nl (?b @ data))) chunks =
     (candidates (butlast (split_nl (last (split_nl (?b @ data)) @ concat chunks))),
      last (split_nl (last (split_nl (?b @ data)) @ concat chunks)))"
    by (rule Cons.IH)
  have sp: "split_nl (?b @ data @ concat chunks) =
      butlast (split_nl (?b @ data)) @ split_nl (last (split_nl (?b @ data)) @ concat chunks)"
    using split_nl_append [of "?b @ data" "concat chunks"] by simp
  have ne: "split_nl (last (split_nl (?b @ data)) @ concat chunks) \<noteq> []"
    by (rule split_nl_not_Nil)
  show ?case
    using ih sp ne by (simp add: frame_eq candidates_def butlast_append)
qed

text \<open>
  The framer of the Jira v1.3.0 and the Confluence adapter is independent of the chunking:
  starting from the empty buffer, the candidate messages of any sequence of chunks are the
  non-blank lines before the last newline of the concatenation, in order and unchanged, and
  what follows the last newline stays in the buffer.
\<close>

lemma feed_chunking_independent:
  "feed [] chunks =
     (candidates (butlast (split_nl (concat chunks))), last (split_nl (concat chunks)))"
  using feed_eq [of "[]" chunks] by simp

lemma split_nl_no_newline: "CHR 0x0A \<notin> set r \<Longrightarrow> split_nl r = [r]"
  by (induction r) auto

lemma split_nl_line: "CHR 0x0A \<notin> set m \<Longrightarrow> split_nl (m @ CHR 0x0A # x) = m # split_nl x"
  by (induction m) auto

lemma split_nl_messages:
  assumes "\<forall>m\<in>set msgs. CHR 0x0A \<notin> set m" and "CHR 0x0A \<notin> set rest"
  shows "split_nl (concat (map (\<lambda>m. m @ [CHR 0x0A]) msgs) @ rest) = msgs @ [rest]"
  using assms by (induction msgs) (simp_all add: split_nl_no_newline split_nl_line)

text \<open>
  In the words of claim C1: when the chunks are any partition of the messages \<open>msgs\<close>,
  each closed by a newline, followed by a fragment \<open>rest\<close> without newline, the
  candidate messages are the messages that are not blank, in order and unchanged, and the
  fragment is the buffer. This holds of the Jira adapter v1.3.0 and of the Confluence adapter.
\<close>

lemma feed_messages:
  assumes "\<forall>m\<in>set msgs. CHR 0x0A \<notin> set m" and "CHR 0x0A \<notin> set rest"
    and "concat chunks = concat (map (\<lambda>m. m @ [CHR 0x0A]) msgs) @ rest"
  shows "feed [] chunks = (filter (\<lambda>m. \<not> blank m) msgs, rest)"
  using split_nl_messages [OF assms(1,2)] assms(3)
  by (simp add: feed_chunking_independent candidates_def)

text \<open>
  Claim C1 fails on the legacy adapter, whose handler splits every chunk on its own and keeps
  nothing between chunks: of a message that arrives in two chunks it makes two candidate
  messages, neither of them the source line. (The line is the one of the specification's own
  scenario.) The framer of the other two adapters yields the one line.
\<close>

theorem legacy_feed_splits_message:
  \<open>legacy_feed [''{"jsonrpc":"2.0","id":7,"method":"to'', ''ols/list"}'' @ [CHR 0x0A]]
     = [''{"jsonrpc":"2.0","id":7,"method":"to'', ''ols/list"}'']
   \<and> feed [] [''{"jsonrpc":"2.0","id":7,"method":"to'', ''ols/list"}'' @ [CHR 0x0A]]
     = ([''{"jsonrpc":"2.0","id":7,"method":"tools/list"}''], [])\<close>
  by (simp add: legacy_feed_def legacy_candidates_def candidates_def blank_def js_trim_def
      is_ws_def frame_def)

section \<open>The dispatchers: decoding and replies\<close>

lemmas example_parse_simps = example_rt_def example_parse_def example_documents_def

lemma read_prop_not_null: "v \<noteq> JNull \<Longrightarrow> read_prop v k = Inr (get v k)"
  by (cases v) simp_all

lemma jira_decode_ok:
  "JSON_parse rt line = Inr request \<Longrightarrow> request \<noteq> JNull \<Longrightarrow>
     jira_decode rt line = Inr (request, id_or_null (get request ''id''))"
  by (simp add: jira_decode_def read_prop_not_null)

lemma conf_decode_ok:
  "JSON_parse rt line = Inr request \<Longrightarrow> request \<noteq> JNull \<Longrightarrow>
     conf_decode rt line = Inr (request, id_unless_undefined (get request ''id''))"
  by (simp add: conf_decode_def read_prop_not_null)

text \<open>The loops handle the candidate messages of the framer and nothing else.\<close>

lemma jira_lines_candidates: "jira_lines rt (candidates lines) w = jira_lines rt lines w"
  by (induction lines arbitrary: w) (auto simp: candidates_def split: prod.splits)

lemma conf_lines_candidates: "conf_lines rt (candidates lines) w = conf_lines rt lines w"
  by (induction lines arbitrary: w) (auto simp: candidates_def split: prod.splits bool.splits)

text \<open>The Jira dispatcher writes exactly one reply for every line that is not blank.\<close>

lemma jira_line_one_reply: "\<exists>r. fst (jira_line rt line w) = [r]"
  by (auto simp: jira_line_def split: sum.splits prod.splits)

lemma jira_line_reply_id:
  assumes "jira_decode rt line = Inr (request, rid)"
  shows "\<exists>r. fst (jira_line rt line w) = [r] \<and> reply_id r = rid"
  using assms by (auto simp: jira_line_def split: sum.splits prod.splits)

lemma conf_line_reply_id:
  assumes "conf_decode rt line = Inr (request, rid)" and "is_notification request = Some False"
    and "rid \<noteq> JNull"
  shows "\<exists>r. fst (conf_line rt line w) = [r] \<and> reply_id r = rid"
  using assms by (auto simp: conf_line_def split: sum.splits prod.splits)

lemma jira_line_failure:
  assumes "jira_decode rt line = Inr (request, rid)"
    and "jira_handleRequest rt request w = (Inl (Error x), w')"
    and "jira_error_code x = (c, m)"
  shows "jira_line rt line w = ([Failure rid c m (Some x)], w')"
  using assms by (simp add: jira_line_def)

section \<open>Unknown methods and unknown tools\<close>

text \<open>The one exception a template literal throws on a value that came out of
  \<^verbatim>\<open>JSON.parse\<close>; a string, a number and \<^verbatim>\<open>undefined\<close> always print.\<close>

lemma json_str_error:
  shows "json_str rt v = Inl e \<Longrightarrow> e = TypeError ''Cannot convert object to primitive value''"
    and "join_comma rt vs = Inl e \<Longrightarrow> e = TypeError ''Cannot convert object to primitive value''"
  by (induction rt v and rt vs rule: json_str_join_comma.induct)
    (auto split: sum.splits if_splits)

lemma to_str_error:
  "to_str rt v = Inl e \<Longrightarrow> e = TypeError ''Cannot convert object to primitive value''"
  using json_str_error(1) [of rt _ e] by (cases v) auto

lemma json_str_throws:
  shows "(\<exists>e. json_str rt v = Inl e) \<longleftrightarrow> unprintable v"
    and "(\<exists>e. join_comma rt vs = Inl e) \<longleftrightarrow> (\<exists>x\<in>set vs. unprintable x)"
  by (induction rt v and rt vs rule: json_str_join_comma.induct)
    (auto split: sum.splits if_splits)

lemma to_str_throws:
  "(\<exists>e. to_str rt v = Inl e) \<longleftrightarrow> (\<exists>x. v = Some x \<and> unprintable x)"
  using json_str_throws(1) [of rt] by (cases v) auto

lemma unknown_method_code:
  "jira_error_code (''Unknown method: '' @ m) = (- 32601, ''Method not found'')"
  by (simp add: jira_error_code_def)

lemma unknown_tool_code:
  "jira_error_code (''Tool execution failed: Unknown tool: '' @ n) =
     (if js_includes n ''Unknown method'' then (- 32601, ''Method not found'')
      else if js_includes n ''required'' \<or> js_includes n ''Invalid arguments''
        then (- 32602, ''Invalid params'')
      else (- 32000, ''Tool execution error''))"
  by (simp add: jira_error_code_def)

lemma unprintable_codes:
  "jira_error_code ''Cannot convert object to primitive value'' = (- 32603, ''Internal error'')"
  "jira_error_code ''Tool execution failed: Cannot convert object to primitive value''
     = (- 32000, ''Tool execution error'')"
  by (simp_all add: jira_error_code_def)

lemma jira_switch_unknown:
  "name \<notin> (\<lambda>t. Some (JStr (tool_name t))) ` set jira_tools \<Longrightarrow>
   jira_switch rt name args w =
     (case to_str rt name of
        Inl e \<Rightarrow> (Inl e, w)
      | Inr n \<Rightarrow> (Inl (Error (''Unknown tool: '' @ n)), w))"
  by (simp add: jira_switch_def jira_tools_def)

text \<open>
  Claim C3, as stated, fails: a \<^verbatim>\<open>tools/call\<close> that names a tool outside the registry
  is answered with code \<open>-32000\<close>, not \<open>-32601\<close>. \<^verbatim>\<open>handleToolCall\<close> wraps
  \<^verbatim>\<open>Unknown tool: frobnicate\<close> into \<^verbatim>\<open>Tool execution failed: ...\<close>, and the
  dispatcher gives \<open>-32601\<close> only to messages that hold \<^verbatim>\<open>Unknown method\<close>.
\<close>

theorem jira_unknown_tool_counterexample:
  \<open>jira_line example_rt
      ''{"jsonrpc":"2.0","id":3,"method":"tools/call","params":{"name":"frobnicate"}}'' world0
   = ([Failure (JNum 3) (- 32000) ''Tool execution error''
         (Some ''Tool execution failed: Unknown tool: frobnicate'')], world0)
   \<and> Some (JStr ''frobnicate'') \<notin> (\<lambda>t. Some (JStr (tool_name t))) ` set jira_tools\<close>
  by (simp add: jira_line_def jira_decode_def example_parse_simps
      id_or_null_def jira_handleRequest_def destructure_request_def jira_error_code_def
      jira_handleToolCall_def destructure_params_def jira_switch_def jira_tools_def)

text \<open>
  Claim C3, amended. For every line that the Jira dispatcher decodes to a value other than
  \<^verbatim>\<open>null\<close>, with \<open>i\<close> the id of the reply (\<^verbatim>\<open>request.id || null\<close>):

  \<^item> when the top-level method is none of \<^verbatim>\<open>initialize\<close>, \<^verbatim>\<open>tools/list\<close> and
    \<^verbatim>\<open>tools/call\<close>, the one reply is an error with code \<open>-32601\<close> and the data
    \<^verbatim>\<open>Unknown method: \<close> followed by the method as a template literal prints it; when
    the method cannot be printed (it is \<open>unprintable\<close>: an object with a property
    \<^verbatim>\<open>toString\<close> of its own, or an array that holds such a value), the one reply is an
    error with the internal-error code \<open>-32603\<close>;
  \<^item> when the method is \<^verbatim>\<open>tools/call\<close>, its \<^verbatim>\<open>params\<close> are not \<^verbatim>\<open>null\<close> and the
    tool named is not in the registry, the one reply is an error whose code the dispatcher
    reads off the text
    \<^verbatim>\<open>Tool execution failed: Unknown tool: \<close> followed by the printed name: \<open>-32601\<close>
    if the name holds \<^verbatim>\<open>Unknown method\<close>, else \<open>-32602\<close> if it holds
    \<^verbatim>\<open>required\<close> or \<^verbatim>\<open>Invalid arguments\<close>, else the tool-execution code
    \<open>-32000\<close>, which is also the code when the name cannot be printed.

  No backend call is made in any of these cases: the world is unchanged.
\<close>

theorem jira_not_found_codes:
  assumes "JSON_parse rt line = Inr request" and "request \<noteq> JNull"
  shows "(\<forall>method params.
            destructure_request request = Inr (method, params) \<longrightarrow>
            method \<notin> {Some (JStr ''initialize''), Some (JStr ''tools/list''), Some (JStr ''tools/call'')} \<longrightarrow>
            jira_line rt line w =
              ([case to_str rt method of
                  Inr m \<Rightarrow>
                    Failure (id_or_null (get request ''id'')) (- 32601) ''Method not found''
                      (Some (''Unknown method: '' @ m))
                | Inl e \<Rightarrow>
                    Failure (id_or_null (get request ''id'')) (- 32603) ''Internal error''
                      (Some ''Cannot convert object to primitive value'')], w))
       \<and> (\<forall>params name args.
            destructure_request request = Inr (Some (JStr ''tools/call''), params) \<longrightarrow>
            destructure_params params = Inr (name, args) \<longrightarrow>
            name \<notin> (\<lambda>t. Some (JStr (tool_name t))) ` set jira_tools \<longrightarrow>
            jira_line rt line w =
              ([case to_str rt name of
                  Inr n \<Rightarrow>
                    if js_includes n ''Unknown method''
                    then Failure (id_or_null (get request ''id'')) (- 32601) ''Method not found''
                           (Some (''Tool execution failed: Unknown tool: '' @ n))
                    else if js_includes n ''required'' \<or> js_includes n ''Invalid arguments''
                    then Failure (id_or_null (get request ''id'')) (- 32602) ''Invalid params''
                           (Some (''Tool execution failed: Unknown tool: '' @ n))
                    else Failure (id_or_null (get request ''id'')) (- 32000) ''Tool execution error''
                           (Some (''Tool execution failed: Unknown tool: '' @ n))
                | Inl e \<Rightarrow>
                    Failure (id_or_null (get request ''id'')) (- 32000) ''Tool execution error''
                      (Some ''Tool execution failed: Cannot convert object to primitive value'')],
               w))
       \<and> (\<forall>v. (\<exists>e. to_str rt v = Inl e) \<longleftrightarrow> (\<exists>x. v = Some x \<and> unprintable x))"
proof (intro conjI allI impI)
  fix meth params
  assume d: "destructure_request request = Inr (meth, params)"
    and u: "meth \<notin> {Some (JStr ''initialize''), Some (JStr ''tools/list''), Some (JStr ''tools/call'')}"
  show "jira_line rt line w =
      ([case to_str rt meth of
          Inr m \<Rightarrow>
            Failure (id_or_null (get request ''id'')) (- 32601) ''Method not found''
              (Some (''Unknown method: '' @ m))
        | Inl e \<Rightarrow>
            Failure (id_or_null (get request ''id'')) (- 32603) ''Internal error''
              (Some ''Cannot convert object to primitive value'')], w)"
  proof (cases "to_str rt meth")
    case (Inr m)
    then have "jira_handleRequest rt request w = (Inl (Error (''Unknown method: '' @ m)), w)"
      using d u by (simp add: jira_handleRequest_def)
    then have "jira_line rt line w =
        ([Failure (id_or_null (get request ''id'')) (- 32601) ''Method not found''
            (Some (''Unknown method: '' @ m))], w)"
      using jira_line_failure [OF jira_decode_ok [OF assms] _ unknown_method_code] by blast
    with Inr show ?thesis by simp
  next
    case (Inl e)
    then have e: "e = TypeError ''Cannot convert object to primitive value''"
      by (rule to_str_error)
    have "jira_handleRequest rt request w = (Inl e, w)"
      using d u Inl by (simp add: jira_handleRequest_def)
    then have "jira_line rt line w =
        ([Failure (id_or_null (get request ''id'')) (- 32603) ''Internal error''
            (Some ''Cannot convert object to primitive value'')], w)"
      using jira_decode_ok [OF assms] unprintable_codes(1) by (simp add: jira_line_def e)
    with Inl show ?thesis by simp
  qed
next
  fix params name args
  assume d: "destructure_request request = Inr (Some (JStr ''tools/call''), params)"
    and p: "destructure_params params = Inr (name, args)"
    and u: "name \<notin> (\<lambda>t. Some (JStr (tool_name t))) ` set jira_tools"
  let ?i = "id_or_null (get request ''id'')"
  show "jira_line rt line w =
      ([case to_str rt name of
          Inr n \<Rightarrow>
            if js_includes n ''Unknown method''
            then Failure ?i (- 32601) ''Method not found''
                   (Some (''Tool execution failed: Unknown tool: '' @ n))
            else if js_includes n ''required'' \<or> js_includes n ''Invalid arguments''
            then Failure ?i (- 32602) ''Invalid params''
                   (Some (''Tool execution failed: Unknown tool: '' @ n))
            else Failure ?i (- 32000) ''Tool execution error''
                   (Some (''Tool execution failed: Unknown tool: '' @ n))
        | Inl e \<Rightarrow>
            Failure ?i (- 32000) ''Tool execution error''
              (Some ''Tool execution failed: Cannot convert object to primitive value'')], w)"
  proof (cases "to_str rt name")
    case (Inr n)
    have "jira_handleToolCall rt params w =
        (Inl (Error (''Tool execution failed: Unknown tool: '' @ n)), w)"
      using p jira_switch_unknown [OF u] Inr by (simp add: jira_handleToolCall_def)
    then have h: "jira_handleRequest rt request w =
        (Inl (Error (''Tool execution failed: Unknown tool: '' @ n)), w)"
      using d by (simp add: jira_handleRequest_def)
    obtain c m where c: "jira_error_code (''Tool execution failed: Unknown tool: '' @ n) = (c, m)"
      by (cases "jira_error_code (''Tool execution failed: Unknown tool: '' @ n)")
    have "jira_line rt line w =
        ([Failure ?i c m (Some (''Tool execution failed: Unknown tool: '' @ n))], w)"
      by (rule jira_line_failure [OF jira_decode_ok [OF assms] h c])
    moreover have "(c, m) =
       (if js_includes n ''Unknown method'' then (- 32601, ''Method not found'')
        else if js_includes n ''required'' \<or> js_includes n ''Invalid arguments''
          then (- 32602, ''Invalid params'')
        else (- 32000, ''Tool execution error''))"
      using c unknown_tool_code [of n] by simp
    ultimately show ?thesis using Inr by (simp split: if_splits)
  next
    case (Inl e)
    then have e: "e = TypeError ''Cannot convert object to primitive value''"
      by (rule to_str_error)
    have "jira_handleToolCall rt params w =
        (Inl (Error ''Tool execution failed: Cannot convert object to primitive value''), w)"
      using p jira_switch_unknown [OF u] Inl by (simp add: jira_handleToolCall_def e)
    then have h: "jira_handleRequest rt request w =
        (Inl (Error ''Tool execution failed: Cannot convert object to primitive value''), w)"
      using d by (simp add: jira_handleRequest_def)
    have "jira_line rt line w =
        ([Failure ?i (- 32000) ''Tool execution error''
            (Some ''Tool execution failed: Cannot convert object to primitive value'')], w)"
      by (rule jira_line_failure [OF jira_decode_ok [OF assms] h unprintable_codes(2)])
    with Inl show ?thesis by simp
  qed
next
  fix v show "(\<exists>e. to_str rt v = Inl e) \<longleftrightarrow> (\<exists>x. v = Some x \<and> unprintable x)"
    by (rule to_str_throws)
qed

theorem jira_not_found_codes_witness:
  \<open>jira_line example_rt ''{"jsonrpc":"2.0","id":4,"method":"resources/list"}'' world0
     = ([Failure (JNum 4) (- 32601) ''Method not found'' (Some ''Unknown method: resources/list'')],
        world0)
   \<and> jira_line example_rt ''{"jsonrpc":"2.0","id":5,"method":{"toString":0}}'' world0
     = ([Failure (JNum 5) (- 32603) ''Internal error''
           (Some ''Cannot convert object to primitive value'')], world0)
   \<and> jira_line example_rt
        ''{"jsonrpc":"2.0","id":3,"method":"tools/call","params":{"name":"frobnicate"}}'' world0
     = ([Failure (JNum 3) (- 32000) ''Tool execution error''
           (Some ''Tool execution failed: Unknown tool: frobnicate'')], world0)
   \<and> jira_line example_rt
        ''{"jsonrpc":"2.0","id":6,"method":"tools/call","params":{"name":"required"}}'' world0
     = ([Failure (JNum 6) (- 32602) ''Invalid params''
           (Some ''Tool execution failed: Unknown tool: required'')], world0)\<close>
proof -
  let ?r4 = "JObj [(''jsonrpc'', JStr ''2.0''), (''id'', JNum 4), (''method'', JStr ''resources/list'')]"
  let ?r5 = "JObj [(''jsonrpc'', JStr ''2.0''), (''id'', JNum 5),
            (''method'', JObj [(''toString'', JNum 0)])]"
  let ?r3 = "JObj [(''jsonrpc'', JStr ''2.0''), (''id'', JNum 3), (''method'', JStr ''tools/call''),
            (''params'', JObj [(''name'', JStr ''frobnicate'')])]"
  let ?r6 = "JObj [(''jsonrpc'', JStr ''2.0''), (''id'', JNum 6), (''method'', JStr ''tools/call''),
            (''params'', JObj [(''name'', JStr ''required'')])]"
  have p4: \<open>JSON_parse example_rt ''{"jsonrpc":"2.0","id":4,"method":"resources/list"}'' = Inr ?r4\<close>
    by (simp add: example_parse_simps)
  have p5: \<open>JSON_parse example_rt ''{"jsonrpc":"2.0","id":5,"method":{"toString":0}}'' = Inr ?r5\<close>
    by (simp add: example_parse_simps)
  have p3: \<open>JSON_parse example_rt
      ''{"jsonrpc":"2.0","id":3,"method":"tools/call","params":{"name":"frobnicate"}}'' = Inr ?r3\<close>
    by (simp add: example_parse_simps)
  have p6: \<open>JSON_parse example_rt
      ''{"jsonrpc":"2.0","id":6,"method":"tools/call","params":{"name":"required"}}'' = Inr ?r6\<close>
    by (simp add: example_parse_simps)
  have n4: "?r4 \<noteq> JNull" and n5: "?r5 \<noteq> JNull" and n3: "?r3 \<noteq> JNull" and n6: "?r6 \<noteq> JNull"
    by simp_all
  note a = jira_not_found_codes [OF p4 n4, of world0, THEN conjunct1, rule_format,
      of "Some (JStr ''resources/list'')" "JObj []"]
  note b = jira_not_found_codes [OF p5 n5, of world0, THEN conjunct1, rule_format,
      of "Some (JObj [(''toString'', JNum 0)])" "JObj []"]
  note c = jira_not_found_codes [OF p3 n3, of world0, THEN conjunct2, THEN conjunct1, rule_format,
      of "JObj [(''name'', JStr ''frobnicate'')]" "Some (JStr ''frobnicate'')" "JObj []"]
  note d = jira_not_found_codes [OF p6 n6, of world0, THEN conjunct2, THEN conjunct1, rule_format,
      of "JObj [(''name'', JStr ''required'')]" "Some (JStr ''required'')" "JObj []"]
  have \<open>jira_line example_rt ''{"jsonrpc":"2.0","id":4,"method":"resources/list"}'' world0
     = ([Failure (JNum 4) (- 32601) ''Method not found'' (Some ''Unknown method: resources/list'')],
        world0)\<close>
    using a by (simp add: destructure_request_def id_or_null_def)
  moreover have \<open>jira_line example_rt ''{"jsonrpc":"2.0","id":5,"method":{"toString":0}}'' world0
     = ([Failure (JNum 5) (- 32603) ''Internal error''
           (Some ''Cannot convert object to primitive value'')], world0)\<close>
    using b by (simp add: destructure_request_def id_or_null_def)
  moreover have \<open>jira_line example_rt
        ''{"jsonrpc":"2.0","id":3,"method":"tools/call","params":{"name":"frobnicate"}}'' world0
     = ([Failure (JNum 3) (- 32000) ''Tool execution error''
           (Some ''Tool execution failed: Unknown tool: frobnicate'')], world0)\<close>
    using c by (simp add: destructure_request_def destructure_params_def id_or_null_def jira_tools_def)
  moreover have \<open>jira_line example_rt
        ''{"jsonrpc":"2.0","id":6,"method":"tools/call","params":{"name":"required"}}'' world0
     = ([Failure (JNum 6) (- 32602) ''Invalid params''
           (Some ''Tool execution failed: Unknown tool: required'')], world0)\<close>
    using d by (simp add: destructure_request_def destructure_params_def id_or_null_def jira_tools_def)
  ultimately show ?thesis by simp
qed

section \<open>The id of a reply\<close>

text \<open>
  Claim C10. For every line that decodes to a request whose \<^verbatim>\<open>id\<close> is one of the falsy
  values \<open>0\<close>, \<^verbatim>\<open>false\<close>, the empty string and \<^verbatim>\<open>null\<close>, the Jira dispatcher
  writes one reply and its id is \<^verbatim>\<open>null\<close> (\<^verbatim>\<open>request.id || null\<close>). The Confluence
  dispatcher, which compares the id with \<^verbatim>\<open>undefined\<close>, echoes such an id when it
  replies: to a request that is no notification, with the id it was given unless that is
  \<^verbatim>\<open>null\<close>.
\<close>

theorem jira_falsy_id_replied_null:
  assumes "JSON_parse rt line = Inr request" and "request \<noteq> JNull"
    and "get request ''id'' = Some i" and "i \<in> {JNum 0, JBool False, JStr [], JNull}"
  shows "(\<exists>r. fst (jira_line rt line w) = [r] \<and> reply_id r = JNull)
       \<and> (is_notification request = Some False \<longrightarrow> i \<noteq> JNull \<longrightarrow>
            (\<exists>r. fst (conf_line rt line w) = [r] \<and> reply_id r = i))"
proof (intro conjI impI)
  have "id_or_null (get request ''id'') = JNull"
    using assms(3,4) by (auto simp: id_or_null_def)
  then show "\<exists>r. fst (jira_line rt line w) = [r] \<and> reply_id r = JNull"
    using jira_line_reply_id [OF jira_decode_ok [OF assms(1,2)], of w] by simp
next
  assume "is_notification request = Some False" and "i \<noteq> JNull"
  then show "\<exists>r. fst (conf_line rt line w) = [r] \<and> reply_id r = i"
    using conf_line_reply_id [OF conf_decode_ok [OF assms(1,2)], of w] assms(3)
    by (simp add: id_unless_undefined_def)
qed

theorem jira_falsy_id_replied_null_witness:
  \<open>(\<exists>r. fst (jira_line example_rt ''{"jsonrpc":"2.0","id":0,"method":"tools/list"}'' world0) = [r]
        \<and> reply_id r = JNull)
   \<and> (\<exists>r. fst (conf_line example_rt ''{"jsonrpc":"2.0","id":0,"method":"tools/list"}'' world0) = [r]
        \<and> reply_id r = JNum 0)\<close>
proof -
  let ?r = "JObj [(''jsonrpc'', JStr ''2.0''), (''id'', JNum 0), (''method'', JStr ''tools/list'')]"
  have p: \<open>JSON_parse example_rt ''{"jsonrpc":"2.0","id":0,"method":"tools/list"}'' = Inr ?r\<close>
    by (simp add: example_parse_simps)
  have n: "?r \<noteq> JNull" by simp
  have i: "get ?r ''id'' = Some (JNum 0)" by simp
  have f: "JNum 0 \<in> {JNum 0, JBool False, JStr [], JNull}" by simp
  have nn: "is_notification ?r = Some False"
    by (simp add: is_notification_def startsWith_def)
  show ?thesis
    using jira_falsy_id_replied_null [OF p n i f, of world0] nn by simp
qed

section \<open>The summary of \<^verbatim>\<open>htmlToText\<close>\<close>

lemma js_trim_length: "length (js_trim s) \<le> length s"
proof -
  have "length (dropWhile is_ws (rev (dropWhile is_ws s))) \<le> length (rev (dropWhile is_ws s))"
    by (rule length_dropWhile_le)
  also have "\<dots> \<le> length s" by (simp add: length_dropWhile_le)
  finally show ?thesis by (simp add: js_trim_def)
qed

lemma accumulate_bound:
  "length summary \<le> 402 \<Longrightarrow> length (accumulate summary sentences) \<le> 402"
proof (induction sentences arbitrary: summary)
  case Nil
  then show ?case by simp
next
  case (Cons s sentences)
  show ?case
  proof (cases "400 < length (summary @ s)")
    case True
    with Cons.prems show ?thesis by simp
  next
    case False
    have "length (summary @ js_trim s @ ''. '') \<le> 402"
      using False js_trim_length [of s] by simp
    with False Cons.prems Cons.IH show ?thesis by simp
  qed
qed

lemma summarise_bound: "length (summarise c) \<le> 500"
proof (cases "500 < length c")
  case True
  have "length (js_trim (accumulate [] (split_sentences c))) \<le> 402"
    using js_trim_length [of "accumulate [] (split_sentences c)"]
      accumulate_bound [of "[]" "split_sentences c"] by simp
  with True show ?thesis by (simp add: summarise_def Let_def)
next
  case False
  then show ?thesis by (simp add: summarise_def)
qed

lemma summarise_short: "length c \<le> 500 \<Longrightarrow> summarise c = c"
  by (simp add: summarise_def)

lemma whole_sentences_snoc:
  "whole_sentences (pre @ [s]) =
     whole_sentences pre @ (if js_trim s \<noteq> [] then js_trim s @ ''. '' else [])"
  by (simp add: whole_sentences_def)

lemma accumulate_whole_sentences:
  "\<exists>k\<le>length ss.
      accumulate (whole_sentences pre) ss = whole_sentences (pre @ take k ss)
    \<and> (k < length ss \<longrightarrow> 400 < length (whole_sentences (pre @ take k ss) @ ss ! k))
    \<and> (\<forall>j<k. length (whole_sentences (pre @ take j ss) @ ss ! j) \<le> 400)"
proof (induction ss arbitrary: pre)
  case Nil
  show ?case by simp
next
  case (Cons s ss)
  show ?case
  proof (cases "400 < length (whole_sentences pre @ s)")
    case True
    then show ?thesis by (intro exI [of _ 0]) simp
  next
    case False
    obtain k where k: "k \<le> length ss"
      and eq: "accumulate (whole_sentences (pre @ [s])) ss = whole_sentences ((pre @ [s]) @ take k ss)"
      and stop: "k < length ss \<longrightarrow> 400 < length (whole_sentences ((pre @ [s]) @ take k ss) @ ss ! k)"
      and fit: "\<forall>j<k. length (whole_sentences ((pre @ [s]) @ take j ss) @ ss ! j) \<le> 400"
      using Cons.IH [of "pre @ [s]"] by blast
    have acc: "accumulate (whole_sentences pre) (s # ss) = accumulate (whole_sentences (pre @ [s])) ss"
      using False by (simp add: whole_sentences_snoc)
    have fit': "\<forall>j<Suc k. length (whole_sentences (pre @ take j (s # ss)) @ (s # ss) ! j) \<le> 400"
    proof (intro allI impI)
      fix j assume "j < Suc k"
      show "length (whole_sentences (pre @ take j (s # ss)) @ (s # ss) ! j) \<le> 400"
      proof (cases j)
        case 0
        with False show ?thesis by simp
      next
        case (Suc i)
        with \<open>j < Suc k\<close> fit show ?thesis by simp
      qed
    qed
    show ?thesis
      using k eq stop fit' acc by (intro exI [of _ "Suc k"]) simp
  qed
qed

text \<open>The regular expression splits a text at its sentence boundaries: \<open>split_sentences\<close>
  returns the sentences of the text, and every text has them.\<close>

lemma terminator_not_ws: "terminator c \<Longrightarrow> \<not> is_ws c"
  by (auto simp: terminator_def is_ws_def)

lemma split_boundary_free:
  "boundary_free p \<Longrightarrow> split_sentences_from False acc p = [rev acc @ p]"
  by (induction p arbitrary: acc rule: boundary_free.induct) simp_all

lemma split_skip_ws:
  "list_all is_ws ws \<Longrightarrow> split_sentences_from True [] (ws @ rest) = split_sentences_from True [] rest"
  by (induction ws) simp_all

lemma split_skip_done:
  "\<not> starts_with_ws rest \<Longrightarrow> split_sentences_from True [] rest = split_sentences_from False [] rest"
  by (cases rest) (simp_all add: starts_with_ws_def)

lemma split_at_boundary:
  assumes "boundary b" and "\<not> starts_with_ws rest"
  shows "split_sentences_from False acc (b @ rest) = rev acc # split_sentences_from False [] rest"
proof -
  obtain t ws where b: "b = t # ws" and t: "terminator t" and ws: "ws \<noteq> []" "list_all is_ws ws"
    using assms(1) by (cases b) auto
  obtain d ds where d: "ws = d # ds" using ws(1) by (cases ws) auto
  with ws(2) have "is_ws d" by simp
  then have "split_sentences_from False acc (b @ rest)
      = rev acc # split_sentences_from True [] (ws @ rest)"
    using b t d by simp
  then show ?thesis
    using split_skip_ws [OF ws(2)] split_skip_done [OF assms(2)] by simp
qed

lemma split_first_boundary:
  assumes "boundary_free p" and "boundary b" and "\<not> starts_with_ws rest"
  shows "split_sentences_from False acc (p @ b @ rest)
           = (rev acc @ p) # split_sentences_from False [] rest"
  using assms(1)
proof (induction p arbitrary: acc rule: boundary_free.induct)
  case 1
  show ?case using split_at_boundary [OF assms(2,3)] by simp
next
  case (2 c)
  obtain t ws where b: "b = t # ws" and t: "terminator t"
    using assms(2) by (cases b) auto
  have "split_sentences_from False acc ([c] @ b @ rest)
      = split_sentences_from False (c # acc) (b @ rest)"
    using b terminator_not_ws [OF t] by simp
  then show ?case using split_at_boundary [OF assms(2,3), of "c # acc"] by simp
next
  case (3 c d cs)
  then show ?case by simp
qed

lemma dropWhile_not_ws: "\<not> starts_with_ws (dropWhile is_ws r)"
  by (induction r) (simp_all add: starts_with_ws_def)

lemma starts_with_ws_hd: "s \<noteq> [] \<Longrightarrow> starts_with_ws s = is_ws (hd s)"
  by (cases s) (simp_all add: starts_with_ws_def)

lemma boundary_not_ws: "boundary b \<Longrightarrow> \<not> starts_with_ws (b @ r)"
  by (cases b) (auto simp: starts_with_ws_def dest: terminator_not_ws)

lemma weave_not_ws:
  "length qs = length bs \<Longrightarrow> list_all boundary bs \<Longrightarrow> \<not> starts_with_ws q \<Longrightarrow>
     \<not> starts_with_ws (weave (q # qs) bs)"
proof (cases bs)
  case Nil
  assume "\<not> starts_with_ws q"
  with Nil show ?thesis by simp
next
  case (Cons b bs')
  assume "list_all boundary bs" and q: "\<not> starts_with_ws q"
  with Cons have b: "boundary b" by simp
  show ?thesis
  proof (cases q)
    case Nil
    with Cons boundary_not_ws [OF b] show ?thesis by simp
  next
    case (Cons c cs)
    with q \<open>bs = b # bs'\<close> show ?thesis by (simp add: starts_with_ws_def)
  qed
qed

lemma sentences_of_Cons:
  "sentences_of s (p # q # qs) (b # bs) \<longleftrightarrow>
     s = p @ b @ weave (q # qs) bs \<and> boundary_free p \<and> boundary b \<and> \<not> starts_with_ws q
     \<and> sentences_of (weave (q # qs) bs) (q # qs) bs"
  by (auto simp: sentences_of_def)

lemma sentences_of_split:
  "sentences_of s ps bs \<Longrightarrow> split_sentences s = ps"
proof -
  have "sentences_of s ps bs \<Longrightarrow> split_sentences_from False [] s = ps"
  proof (induction bs arbitrary: s ps)
    case Nil
    then obtain p where "ps = [p]" by (cases ps) (auto simp: sentences_of_def)
    with Nil show ?case using split_boundary_free [of s "[]"] by (auto simp: sentences_of_def)
  next
    case (Cons b bs)
    then obtain p q qs where ps: "ps = p # q # qs"
      by (cases ps; cases "tl ps") (auto simp: sentences_of_def)
    let ?rest = "weave (q # qs) bs"
    note c = Cons.prems [unfolded ps sentences_of_Cons]
    have nows: "\<not> starts_with_ws ?rest"
      using c weave_not_ws [of qs bs q] by (simp add: sentences_of_def)
    show ?case
      using split_first_boundary [of p b ?rest "[]"] nows Cons.IH [of ?rest "q # qs"] c ps by simp
  qed
  then show "sentences_of s ps bs \<Longrightarrow> split_sentences s = ps" by (simp add: split_sentences_def)
qed

lemma first_boundary:
  "\<not> boundary_free s \<Longrightarrow>
     \<exists>p t d r. s = p @ t # d # r \<and> boundary_free p \<and> terminator t \<and> is_ws d"
proof (induction s rule: boundary_free.induct)
  case 1
  then show ?case by simp
next
  case (2 c)
  then show ?case by simp
next
  case (3 c d cs)
  show ?case
  proof (cases "terminator c \<and> is_ws d")
    case True
    then show ?thesis by (intro exI [of _ "[]"] exI [of _ c] exI [of _ d] exI [of _ cs]) simp
  next
    case False
    with "3.prems" have "\<not> boundary_free (d # cs)" by simp
    then obtain p t e r where eq: "d # cs = p @ t # e # r" and p: "boundary_free p"
      and t: "terminator t" "is_ws e"
      using "3.IH" by blast
    have "boundary_free (c # p)"
    proof (cases p)
      case Nil
      then show ?thesis by simp
    next
      case (Cons x xs)
      with eq have "x = d" by simp
      with Cons p False show ?thesis by simp
    qed
    with eq t show ?thesis
      by (intro exI [of _ "c # p"] exI [of _ t] exI [of _ e] exI [of _ r]) simp
  qed
qed

lemma sentences_exist: "\<exists>ps bs. sentences_of s ps bs"
proof (induction "length s" arbitrary: s rule: less_induct)
  case less
  show ?case
  proof (cases "boundary_free s")
    case True
    then show ?thesis
      by (intro exI [of _ "[s]"] exI [of _ "[]"]) (simp add: sentences_of_def)
  next
    case False
    then obtain p t d r where s: "s = p @ t # d # r" and p: "boundary_free p"
      and t: "terminator t" and d: "is_ws d"
      using first_boundary by blast
    define b where "b = t # d # takeWhile is_ws r"
    define rest where "rest = dropWhile is_ws r"
    have s': "s = p @ b @ rest" using s by (simp add: b_def rest_def)
    have b: "boundary b" using t d by (simp add: b_def list_all_iff) (meson set_takeWhileD)
    have nows: "\<not> starts_with_ws rest"
      by (simp add: rest_def dropWhile_not_ws)
    have "length rest < length s"
      using s length_dropWhile_le [of is_ws r] by (simp add: rest_def)
    then obtain ps bs where r: "sentences_of rest ps bs" using less by blast
    then obtain q qs where ps: "ps = q # qs" by (cases ps) (auto simp: sentences_of_def)
    have q: "\<not> starts_with_ws q"
    proof (cases q)
      case Nil
      then show ?thesis by (simp add: starts_with_ws_def)
    next
      case (Cons c cs)
      with r ps have "rest = c # cs @ (case bs of [] \<Rightarrow> [] | b # bs' \<Rightarrow> b @ weave qs bs')"
        by (cases bs) (auto simp: sentences_of_def)
      with nows Cons show ?thesis by (simp add: starts_with_ws_def)
    qed
    have "sentences_of s (p # q # qs) (b # bs)"
      unfolding sentences_of_Cons using s' p b q r ps by (auto simp: sentences_of_def)
    then show ?thesis by blast
  qed
qed

lemma summarise_long:
  assumes "500 < length c"
  shows "\<exists>ps bs k. sentences_of c ps bs \<and> k \<le> length ps
      \<and> summarise c = js_trim (whole_sentences (take k ps)) @ ''...''
      \<and> (k < length ps \<longrightarrow> 400 < length (whole_sentences (take k ps) @ ps ! k))
      \<and> (\<forall>j<k. length (whole_sentences (take j ps) @ ps ! j) \<le> 400)"
proof -
  obtain ps bs where s: "sentences_of c ps bs" using sentences_exist by blast
  then have ss: "split_sentences c = ps" by (rule sentences_of_split)
  have w0: "whole_sentences [] = []" by (simp add: whole_sentences_def)
  obtain k where k: "k \<le> length ps"
    and eq: "accumulate [] ps = whole_sentences (take k ps)"
    and stop: "k < length ps \<longrightarrow> 400 < length (whole_sentences (take k ps) @ ps ! k)"
    and fit: "\<forall>j<k. length (whole_sentences (take j ps) @ ps ! j) \<le> 400"
    using accumulate_whole_sentences [of ps "[]"] w0 by auto
  have "length (accumulate [] ps) \<le> 402"
    using accumulate_bound [of "[]" ps] by simp
  then have "length (accumulate [] ps) < length c" using assms by simp
  then have "summarise c = js_trim (whole_sentences (take k ps)) @ ''...''"
    using assms eq ss by (simp add: summarise_def Let_def)
  with s k stop fit show ?thesis by blast
qed

text \<open>
  Claim C6. For every HTML input, the text \<^verbatim>\<open>htmlToText\<close> returns (when
  \<^verbatim>\<open>convert\<close> returns) has at most 500 code units, in the Jira adapter v1.3.0 and in
  the legacy adapter, whose summarising code is the same. \<^verbatim>\<open>htmlToText\<close> is
  \<open>summarise\<close> of the cleaned text; a cleaned text of at most 500 code units is returned as
  it is; a longer one is cut at a sentence boundary: the pieces the code splits a text into
  are the sentences of the text, which its sentence boundaries separate, and no others; with
  \<open>ps\<close> these sentences, the result is the first \<open>k\<close> sentences written out whole, each trimmed and
  closed by a full stop, with the marker \<^verbatim>\<open>...\<close> appended, where every sentence before the
  \<open>k\<close>-th kept the accumulated text together with the next sentence within 400 code units,
  and the \<open>k\<close>-th, if there is one, would exceed 400.
\<close>

theorem htmlToText_bounded:
  "(\<forall>t. jira_htmlToText rt html = Inr t \<longrightarrow> length t \<le> 500)
 \<and> (\<forall>t. legacy_htmlToText rt html = Inr t \<longrightarrow> length t \<le> 500)
 \<and> (\<forall>v. html \<noteq> [] \<longrightarrow> convert rt JiraOptions html = Inr v \<longrightarrow>
        jira_htmlToText rt html = Inr (summarise (jira_cleanText v)))
 \<and> (\<forall>v. html \<noteq> [] \<longrightarrow> convert rt LegacyJiraOptions html = Inr v \<longrightarrow>
        legacy_htmlToText rt html = Inr (summarise (legacy_cleanText v)))
 \<and> (\<forall>c. length c \<le> 500 \<longrightarrow> summarise c = c)
 \<and> (\<forall>c. \<exists>bs. sentences_of c (split_sentences c) bs)
 \<and> (\<forall>c ps bs. sentences_of c ps bs \<longrightarrow> split_sentences c = ps)
 \<and> (\<forall>c. 500 < length c \<longrightarrow>
        (\<exists>ps bs k. sentences_of c ps bs \<and> k \<le> length ps
          \<and> summarise c = js_trim (whole_sentences (take k ps)) @ ''...''
          \<and> (k < length ps \<longrightarrow> 400 < length (whole_sentences (take k ps) @ ps ! k))
          \<and> (\<forall>j<k. length (whole_sentences (take j ps) @ ps ! j) \<le> 400)))"
proof (intro conjI allI impI)
  fix t assume "jira_htmlToText rt html = Inr t"
  then show "length t \<le> 500"
    using summarise_bound by (auto simp: jira_htmlToText_def split: if_splits sum.splits)
next
  fix t assume "legacy_htmlToText rt html = Inr t"
  then show "length t \<le> 500"
    using summarise_bound by (auto simp: legacy_htmlToText_def split: if_splits sum.splits)
next
  fix v assume "html \<noteq> []" and "convert rt JiraOptions html = Inr v"
  then show "jira_htmlToText rt html = Inr (summarise (jira_cleanText v))"
    by (simp add: jira_htmlToText_def)
next
  fix v assume "html \<noteq> []" and "convert rt LegacyJiraOptions html = Inr v"
  then show "legacy_htmlToText rt html = Inr (summarise (legacy_cleanText v))"
    by (simp add: legacy_htmlToText_def)
next
  fix c :: string assume "length c \<le> 500"
  then show "summarise c = c" by (rule summarise_short)
next
  fix c
  obtain ps bs where s: "sentences_of c ps bs" using sentences_exist by blast
  then have "split_sentences c = ps" by (rule sentences_of_split)
  with s show "\<exists>bs. sentences_of c (split_sentences c) bs" by blast
next
  fix c ps bs assume "sentences_of c ps bs"
  then show "split_sentences c = ps" by (rule sentences_of_split)
next
  fix c :: string assume "500 < length c"
  then show "\<exists>ps bs k. sentences_of c ps bs \<and> k \<le> length ps
          \<and> summarise c = js_trim (whole_sentences (take k ps)) @ ''...''
          \<and> (k < length ps \<longrightarrow> 400 < length (whole_sentences (take k ps) @ ps ! k))
          \<and> (\<forall>j<k. length (whole_sentences (take j ps) @ ps ! j) \<le> 400)"
    by (rule summarise_long)
qed

text \<open>The text \<open>long_text\<close>: its two sentences, and its summary, which keeps the first
  sentence whole and drops the second.\<close>

lemma no_terminator_boundary_free: "\<forall>c\<in>set p. \<not> terminator c \<Longrightarrow> boundary_free p"
  by (induction p rule: boundary_free.induct) simp_all

lemma js_trim_padded:
  assumes "s \<noteq> []" and "\<not> is_ws (hd s)" and "\<not> is_ws (last s)" and "list_all is_ws w"
  shows "js_trim (s @ w) = s"
proof -
  have a: "dropWhile is_ws (s @ w) = s @ w" using assms(1,2) by (cases s) simp_all
  have "dropWhile is_ws (rev w @ rev s) = dropWhile is_ws (rev s)"
    using assms(4) by (intro dropWhile_append2) (simp add: list_all_iff)
  also have "\<dots> = rev s" using assms(1,3) by (cases "rev s") (auto simp: last_rev [symmetric] hd_rev)
  finally show ?thesis using a by (simp add: js_trim_def)
qed

lemma long_text_sentences:
  "sentences_of long_text [replicate 300 CHR ''a'', replicate 300 CHR ''b''] [''. '']"
  by (simp add: sentences_of_def long_text_def no_terminator_boundary_free terminator_def
      is_ws_def starts_with_ws_hd)

lemma long_text_summary:
  "summarise long_text = replicate 300 CHR ''a'' @ ''....''"
proof -
  have t: "js_trim (replicate 300 CHR ''a'') = replicate 300 CHR ''a''"
    using js_trim_padded [of "replicate 300 CHR ''a''" "[]"] by (simp add: is_ws_def hd_replicate last_replicate)
  have u: "js_trim (replicate 300 CHR ''a'' @ ''. '') = replicate 300 CHR ''a'' @ ''.''"
    using js_trim_padded [of "replicate 300 CHR ''a'' @ ''.''" "'' ''"] by (simp add: is_ws_def hd_append)
  have "accumulate [] (split_sentences long_text) = replicate 300 CHR ''a'' @ ''. ''"
    unfolding sentences_of_split [OF long_text_sentences] by (simp add: t)
  then show ?thesis by (simp add: summarise_def long_text_def u)
qed


theorem htmlToText_bounded_witness:
  "jira_htmlToText example_rt ''Hello.  World'' = Inr ''Hello. World''
   \<and> length ''Hello. World'' \<le> 500
   \<and> summarise ''Hello. World'' = ''Hello. World''
   \<and> split_sentences long_text = [replicate 300 CHR ''a'', replicate 300 CHR ''b'']
   \<and> (\<exists>ps bs k. sentences_of long_text ps bs
         \<and> summarise long_text = js_trim (whole_sentences (take k ps)) @ ''...'')
   \<and> summarise long_text = replicate 300 CHR ''a'' @ ''....''"
proof -
  have r: "jira_htmlToText example_rt ''Hello.  World'' = Inr ''Hello. World''"
    by (simp add: jira_htmlToText_def example_rt_def summarise_def jira_cleanText_def
        collapse_ws_def trim_around_newlines_def collapse_newlines_def js_trim_def is_ws_def)
  note t = htmlToText_bounded [of example_rt "''Hello.  World''"]
  have a: "length ''Hello. World'' \<le> 500"
    using t [THEN conjunct1, rule_format, OF r] .
  have b: "summarise ''Hello. World'' = ''Hello. World''"
    using t [THEN conjunct2, THEN conjunct2, THEN conjunct2, THEN conjunct2, THEN conjunct1,
        rule_format, of "''Hello. World''"] by simp
  have c: "split_sentences long_text = [replicate 300 CHR ''a'', replicate 300 CHR ''b'']"
    using t [THEN conjunct2, THEN conjunct2, THEN conjunct2, THEN conjunct2, THEN conjunct2,
        THEN conjunct2, THEN conjunct1, rule_format, OF long_text_sentences] .
  have l: "500 < length long_text" by (simp add: long_text_def)
  have d: "\<exists>ps bs k. sentences_of long_text ps bs
         \<and> summarise long_text = js_trim (whole_sentences (take k ps)) @ ''...''"
    using t [THEN conjunct2, THEN conjunct2, THEN conjunct2, THEN conjunct2, THEN conjunct2,
        THEN conjunct2, THEN conjunct2, rule_format, OF l] by blast
  show ?thesis using r a b c d long_text_summary by simp
qed

section \<open>\<^verbatim>\<open>cleanHtmlToText\<close> and malformed markup\<close>

lemma preprocessHtml_string:
  "s \<noteq> [] \<Longrightarrow> preprocessHtml rt (Some (JStr s)) = Inr (preprocess_string rt s)"
  by (simp add: preprocessHtml_def)

text \<open>
  Claim C7. For every input string, \<^verbatim>\<open>cleanHtmlToText\<close> returns a text and throws
  nothing, whatever \<^verbatim>\<open>convert\<close> and the regular-expression engine do: when
  \<^verbatim>\<open>convert\<close> throws, the result is the preprocessed text with every tag stripped by
  \<^verbatim>\<open>/<[^>]*>/g\<close>, trimmed; when it returns, the result is its text.
\<close>

theorem cleanHtmlToText_never_throws:
  "(\<exists>t. cleanHtmlToText rt (Some (JStr s)) = Inr t)
 \<and> (\<forall>e. s \<noteq> [] \<longrightarrow> convert rt ConfluenceOptions (preprocess_string rt s) = Inl e \<longrightarrow>
        cleanHtmlToText rt (Some (JStr s))
          = Inr (js_trim (re_replace rt AnyTag (\<lambda>g. []) (preprocess_string rt s))))
 \<and> (\<forall>t. s \<noteq> [] \<longrightarrow> convert rt ConfluenceOptions (preprocess_string rt s) = Inr t \<longrightarrow>
        cleanHtmlToText rt (Some (JStr s)) = Inr t)"
proof (intro conjI allI impI)
  show "\<exists>t. cleanHtmlToText rt (Some (JStr s)) = Inr t"
  proof (cases "s = []")
    case True
    then show ?thesis by (simp add: cleanHtmlToText_def)
  next
    case False
    then show ?thesis
      by (cases "convert rt ConfluenceOptions (preprocess_string rt s)")
        (simp_all add: cleanHtmlToText_def preprocessHtml_string)
  qed
next
  fix e assume "s \<noteq> []" and "convert rt ConfluenceOptions (preprocess_string rt s) = Inl e"
  then show "cleanHtmlToText rt (Some (JStr s))
      = Inr (js_trim (re_replace rt AnyTag (\<lambda>g. []) (preprocess_string rt s)))"
    by (simp add: cleanHtmlToText_def preprocessHtml_string)
next
  fix t assume "s \<noteq> []" and "convert rt ConfluenceOptions (preprocess_string rt s) = Inr t"
  then show "cleanHtmlToText rt (Some (JStr s)) = Inr t"
    by (simp add: cleanHtmlToText_def preprocessHtml_string)
qed

lemma preprocess_bold: "preprocess_string rt_convert_throws ''<b>bold'' = ''<b>bold''"
  by (simp add: preprocess_string_def parseLinks_def parseDateTimes_def parseJiraMacros_def
      rt_convert_throws_def example_rt_def js_trim_def is_ws_def)

theorem cleanHtmlToText_never_throws_witness:
  "cleanHtmlToText rt_convert_throws (Some (JStr ''<b>bold'')) = Inr ''bold''"
proof -
  have c: "convert rt_convert_throws ConfluenceOptions (preprocess_string rt_convert_throws ''<b>bold'')
      = Inl (Error ''Unexpected end of input'')"
    by (simp add: rt_convert_throws_def example_rt_def)
  have n: "''<b>bold'' \<noteq> []" by simp
  have "re_replace rt_convert_throws AnyTag (\<lambda>g. []) ''<b>bold'' = ''bold''"
    by (simp add: rt_convert_throws_def example_rt_def)
  then show ?thesis
    using cleanHtmlToText_never_throws [of rt_convert_throws "''<b>bold''", THEN conjunct2,
        THEN conjunct1, rule_format, OF n c]
    by (simp add: preprocess_bold js_trim_def is_ws_def)
qed

text \<open>The restriction to strings matters: on a truthy value that is no string,
  \<^verbatim>\<open>preprocessHtml\<close> throws in the \<^verbatim>\<open>try\<close> block and again in the
  \<^verbatim>\<open>catch\<close>.\<close>

lemma cleanHtmlToText_not_a_string:
  "cleanHtmlToText rt (Some (JNum 5)) = Inl (TypeError ''html.replace is not a function'')"
  by (simp add: cleanHtmlToText_def preprocessHtml_def)

section \<open>The response cache\<close>

lemma getFromCache_fresh:
  "cache w key = Some (v, ts) \<Longrightarrow> clock rt (ticks w) - ts < cacheTimeout \<Longrightarrow>
     getFromCache rt key w = (v, w\<lparr>ticks := Suc (ticks w)\<rparr>)"
  by (simp add: getFromCache_def date_now_def)

lemma getFromCache_stale:
  "cache w key = Some (v, ts) \<Longrightarrow> cacheTimeout \<le> clock rt (ticks w) - ts \<Longrightarrow>
     getFromCache rt key w = (JNull, w\<lparr>ticks := Suc (ticks w), cache := (cache w)(key := None)\<rparr>)"
  by (simp add: getFromCache_def date_now_def)

lemma getFromCache_absent:
  "cache w key = None \<Longrightarrow> getFromCache rt key w = (JNull, w\<lparr>cache := (cache w)(key := None)\<rparr>)"
  by (simp add: getFromCache_def)

lemma makeRequest_hit:
  assumes "cache w (get_key rt endpoint) = Some (v, ts)" and "truthy (Some v)"
    and "clock rt (ticks w) - ts < cacheTimeout"
  shows "conf_makeRequest rt endpoint ''GET'' JNull w = (Inr v, w\<lparr>ticks := Suc (ticks w)\<rparr>)"
  using assms by (simp add: conf_makeRequest_def Let_def get_key_def [symmetric] getFromCache_fresh)

lemma makeRequest_stale_calls:
  assumes "cache w (get_key rt endpoint) = Some (v, ts)"
    and "cacheTimeout \<le> clock rt (ticks w) - ts"
  shows "calls (snd (conf_makeRequest rt endpoint ''GET'' JNull w)) = calls w @ [get_call endpoint]"
  using assms
  by (simp add: conf_makeRequest_def Let_def get_key_def [symmetric] getFromCache_stale get_call_def
      setToCache_def date_now_def split: http_response.splits sum.splits)

lemma makeRequest_miss:
  assumes "cache w (get_key rt endpoint) = None"
    and "https_request rt (calls w) (get_call endpoint) = Response status body"
    and "status < 400" and "JSON_parse rt body = Inr v"
  shows "conf_makeRequest rt endpoint ''GET'' JNull w =
     (Inr v, w\<lparr>calls := calls w @ [get_call endpoint],
               ticks := Suc (ticks w),
               cache := (cache w)(get_key rt endpoint \<mapsto> (v, clock rt (ticks w)))\<rparr>)"
  using assms
  by (simp add: conf_makeRequest_def Let_def get_key_def [symmetric] getFromCache_absent
      get_call_def [symmetric] setToCache_def date_now_def fun_upd_idem)


text \<open>
  Claim C5, amended. A lookup returns the stored value when an entry exists whose age, the
  clock reading less its timestamp, is below the time to live, and leaves the cache as it
  is; otherwise it returns \<^verbatim>\<open>null\<close> and removes the key. Consequently: when the cache
  holds no entry for a \<^verbatim>\<open>GET\<close> request and the backend answers it with a status below
  400 and a body that parses to a truthy value, the request performs one backend call; the
  same request repeated while the age of the entry is below the time to live returns the
  same value and performs no backend call; repeated once more when the age has reached the
  time to live, it performs a second backend call.
\<close>

theorem cache_ttl:
  "(\<forall>key v ts.
      cache w key = Some (v, ts) \<longrightarrow> clock rt (ticks w) - ts < cacheTimeout \<longrightarrow>
      fst (getFromCache rt key w) = v \<and> cache (snd (getFromCache rt key w)) = cache w)
 \<and> (\<forall>key.
      (cache w key = None
       \<or> (\<exists>v ts. cache w key = Some (v, ts) \<and> cacheTimeout \<le> clock rt (ticks w) - ts)) \<longrightarrow>
      fst (getFromCache rt key w) = JNull
      \<and> cache (snd (getFromCache rt key w)) = (cache w)(key := None))
 \<and> (\<forall>status body v.
      cache w (get_key rt endpoint) = None \<longrightarrow>
      https_request rt (calls w) (get_call endpoint) = Response status body \<longrightarrow>
      status < 400 \<longrightarrow> JSON_parse rt body = Inr v \<longrightarrow> truthy (Some v) \<longrightarrow>
      (case conf_makeRequest rt endpoint ''GET'' JNull w of
         (r1, w1) \<Rightarrow>
           r1 = Inr v \<and> calls w1 = calls w @ [get_call endpoint]
           \<and> (clock rt (ticks w1) - clock rt (ticks w) < cacheTimeout \<longrightarrow>
                (case conf_makeRequest rt endpoint ''GET'' JNull w1 of
                   (r2, w2) \<Rightarrow>
                     r2 = Inr v \<and> calls w2 = calls w @ [get_call endpoint]
                     \<and> (cacheTimeout \<le> clock rt (ticks w2) - clock rt (ticks w) \<longrightarrow>
                          calls (snd (conf_makeRequest rt endpoint ''GET'' JNull w2))
                            = calls w @ [get_call endpoint, get_call endpoint])))))"
proof (intro conjI allI impI)
  fix key v ts
  assume "cache w key = Some (v, ts)" and "clock rt (ticks w) - ts < cacheTimeout"
  then show "fst (getFromCache rt key w) = v" and "cache (snd (getFromCache rt key w)) = cache w"
    by (simp_all add: getFromCache_fresh)
next
  fix key
  assume a: "cache w key = None
       \<or> (\<exists>v ts. cache w key = Some (v, ts) \<and> cacheTimeout \<le> clock rt (ticks w) - ts)"
  then show "fst (getFromCache rt key w) = JNull"
    by (auto simp: getFromCache_absent getFromCache_stale)
  from a show "cache (snd (getFromCache rt key w)) = (cache w)(key := None)"
    by (auto simp: getFromCache_absent getFromCache_stale)
next
  fix status body v
  assume cold: "cache w (get_key rt endpoint) = None"
    and resp: "https_request rt (calls w) (get_call endpoint) = Response status body"
    and ok: "status < 400" and parse: "JSON_parse rt body = Inr v" and tr: "truthy (Some v)"
  let ?w1 = "w\<lparr>calls := calls w @ [get_call endpoint], ticks := Suc (ticks w),
               cache := (cache w)(get_key rt endpoint \<mapsto> (v, clock rt (ticks w)))\<rparr>"
  have first: "conf_makeRequest rt endpoint ''GET'' JNull w = (Inr v, ?w1)"
    by (rule makeRequest_miss [OF cold resp ok parse])
  have c1: "cache ?w1 (get_key rt endpoint) = Some (v, clock rt (ticks w))" by simp
  have second: "clock rt (ticks ?w1) - clock rt (ticks w) < cacheTimeout \<Longrightarrow>
      conf_makeRequest rt endpoint ''GET'' JNull ?w1 = (Inr v, ?w1\<lparr>ticks := Suc (ticks ?w1)\<rparr>)"
    by (rule makeRequest_hit [OF c1 tr])
  let ?w2 = "?w1\<lparr>ticks := Suc (ticks ?w1)\<rparr>"
  have c2: "cache ?w2 (get_key rt endpoint) = Some (v, clock rt (ticks w))" by simp
  have third: "cacheTimeout \<le> clock rt (ticks ?w2) - clock rt (ticks w) \<Longrightarrow>
      calls (snd (conf_makeRequest rt endpoint ''GET'' JNull ?w2)) = calls ?w2 @ [get_call endpoint]"
    by (rule makeRequest_stale_calls [OF c2])
  show "case conf_makeRequest rt endpoint ''GET'' JNull w of
         (r1, w1) \<Rightarrow>
           r1 = Inr v \<and> calls w1 = calls w @ [get_call endpoint]
           \<and> (clock rt (ticks w1) - clock rt (ticks w) < cacheTimeout \<longrightarrow>
                (case conf_makeRequest rt endpoint ''GET'' JNull w1 of
                   (r2, w2) \<Rightarrow>
                     r2 = Inr v \<and> calls w2 = calls w @ [get_call endpoint]
                     \<and> (cacheTimeout \<le> clock rt (ticks w2) - clock rt (ticks w) \<longrightarrow>
                          calls (snd (conf_makeRequest rt endpoint ''GET'' JNull w2))
                            = calls w @ [get_call endpoint, get_call endpoint])))"
    unfolding first using second third by simp
qed

lemma rt_ok_fields:
  \<open>https_request rt_ok h c = Response 200 ''{"results":[]}''\<close>
  \<open>JSON_parse rt_ok ''{"results":[]}'' = Inr (JObj [(''results'', JArr [])])\<close>
  "clock rt_ok n = (if n < 2 then 0 else 300000)"
  by (simp_all add: rt_ok_def example_parse_simps)

theorem cache_ttl_witness:
  "calls (snd (conf_makeRequest rt_ok ''/space?limit=25'' ''GET'' JNull world0))
     = [get_call ''/space?limit=25'']
 \<and> calls (snd (conf_makeRequest rt_ok ''/space?limit=25'' ''GET'' JNull
       (snd (conf_makeRequest rt_ok ''/space?limit=25'' ''GET'' JNull world0))))
     = [get_call ''/space?limit=25'']
 \<and> calls (snd (conf_makeRequest rt_ok ''/space?limit=25'' ''GET'' JNull
       (snd (conf_makeRequest rt_ok ''/space?limit=25'' ''GET'' JNull
          (snd (conf_makeRequest rt_ok ''/space?limit=25'' ''GET'' JNull world0))))))
     = [get_call ''/space?limit=25'', get_call ''/space?limit=25'']"
proof -
  let ?e = "''/space?limit=25''"
  let ?v = "JObj [(''results'', JArr [])]"
  have cold: "cache world0 (get_key rt_ok ?e) = None" by (simp add: world0_def)
  have resp: \<open>https_request rt_ok (calls world0) (get_call ?e) = Response 200 ''{"results":[]}''\<close>
    by (rule rt_ok_fields)
  have ok: "(200::nat) < 400" by simp
  have parse: \<open>JSON_parse rt_ok ''{"results":[]}'' = Inr ?v\<close> by (rule rt_ok_fields)
  have tr: "truthy (Some ?v)" by simp
  note t = cache_ttl [of world0 rt_ok ?e, THEN conjunct2, THEN conjunct2, rule_format,
      OF cold resp ok parse tr]
  obtain r1 w1 where m1: "conf_makeRequest rt_ok ?e ''GET'' JNull world0 = (r1, w1)"
    by (cases "conf_makeRequest rt_ok ?e ''GET'' JNull world0")
  have w1: "w1 = world0\<lparr>calls := calls world0 @ [get_call ?e], ticks := Suc (ticks world0),
        cache := (cache world0)(get_key rt_ok ?e \<mapsto> (?v, clock rt_ok (ticks world0)))\<rparr>"
    using makeRequest_miss [OF cold resp ok parse] m1 by simp
  then have k1: "ticks w1 = 1" by (simp add: world0_def)
  obtain r2 w2 where m2: "conf_makeRequest rt_ok ?e ''GET'' JNull w1 = (r2, w2)"
    by (cases "conf_makeRequest rt_ok ?e ''GET'' JNull w1")
  have c1: "cache w1 (get_key rt_ok ?e) = Some (?v, clock rt_ok (ticks world0))"
    using w1 by simp
  have "clock rt_ok (ticks w1) - clock rt_ok (ticks world0) < cacheTimeout"
    using k1 by (simp add: rt_ok_fields world0_def cacheTimeout_def)
  then have "w2 = w1\<lparr>ticks := Suc (ticks w1)\<rparr>"
    using makeRequest_hit [OF c1 tr] m2 by simp
  then have k2: "ticks w2 = 2" using k1 by simp
  have "cacheTimeout \<le> clock rt_ok (ticks w2) - clock rt_ok (ticks world0)"
    using k2 by (simp add: rt_ok_fields world0_def cacheTimeout_def)
  then show ?thesis
    using t m1 m2 k1 by (simp add: rt_ok_fields world0_def cacheTimeout_def)
qed

text \<open>
  Claim C5, as stated, fails: two identical \<^verbatim>\<open>GET\<close> requests within one time to live
  perform two backend calls when the first is answered with status 503, since only a
  successful answer is stored. They also perform two when the first is answered
  successfully with the body \<^verbatim>\<open>null\<close> (or \<^verbatim>\<open>false\<close>, \<^verbatim>\<open>0\<close>,
  \<^verbatim>\<open>""\<close>): the value is stored, the lookup returns it, and
  \<^verbatim>\<open>if (cached) return cached;\<close> rejects it.
\<close>

theorem cache_failed_read_counterexample:
  "fst (conf_makeRequest rt_503 ''/space?limit=25'' ''GET'' JNull world0)
     = Inl (Error ''Confluence API Error: 503 - Service Unavailable'')
   \<and> calls (snd (conf_makeRequest rt_503 ''/space?limit=25'' ''GET'' JNull
       (snd (conf_makeRequest rt_503 ''/space?limit=25'' ''GET'' JNull world0))))
     = [get_call ''/space?limit=25'', get_call ''/space?limit=25'']
   \<and> clock rt_503 1 - clock rt_503 0 < cacheTimeout
   \<and> fst (conf_makeRequest rt_null_body ''/space?limit=25'' ''GET'' JNull world0) = Inr JNull
   \<and> cache (snd (conf_makeRequest rt_null_body ''/space?limit=25'' ''GET'' JNull world0))
         (get_key rt_null_body ''/space?limit=25'') = Some (JNull, 0)
   \<and> calls (snd (conf_makeRequest rt_null_body ''/space?limit=25'' ''GET'' JNull
       (snd (conf_makeRequest rt_null_body ''/space?limit=25'' ''GET'' JNull world0))))
     = [get_call ''/space?limit=25'', get_call ''/space?limit=25'']
   \<and> clock rt_null_body 1 - clock rt_null_body 0 < cacheTimeout"
  by (simp add: conf_makeRequest_def Let_def getFromCache_def setToCache_def date_now_def
      rt_503_def rt_null_body_def example_parse_simps world0_def get_call_def get_key_def
      cacheTimeout_def getCacheKey_def show_nat.simps [of 503] show_nat.simps [of 50]
      show_nat.simps [of 5])

section \<open>The search strategies\<close>




lemmas search_defs = conf_advancedSearch_def advancedSearch_string_def conf_searchPagesCompact_def
  cql_attempt_def validateAndOptimizeCQL_def encode_cql_def search_endpoint_def
  conf_searchPagesSimple_def simple_query_def search_strategy2_def search_strategy3_def
  conf_makeRequest_def getFromCache_def setToCache_def date_now_def getCacheKey_def get_key_def
  map_results_def replace_cached_def search_result_def object_literal_def or_else_def
  compact_item_def isSafeInteger_def

lemma show_nat_404: "show_nat 404 = ''404''"
  by (simp add: show_nat.simps [of 404] show_nat.simps [of 40] show_nat.simps [of 4])

lemma show_nat_10: "show_nat 10 = ''10''"
  by (simp add: show_nat.simps [of 10] show_nat.simps [of 1])

lemma show_nat_500: "show_nat 500 = ''500''"
  by (simp add: show_nat.simps [of 500] show_nat.simps [of 50] show_nat.simps [of 5])

lemma show_nat_400: "show_nat 400 = ''400''"
  by (simp add: show_nat.simps [of 400] show_nat.simps [of 40] show_nat.simps [of 4])

lemmas example_eval = rt_404_def rt_404_then_ok_def rt_500_then_ok_def rt_ok_def
  rt_space_title_def rt_guide_def space_title_query_def space_query_def example_rt_def world0_def Let_def
  js_trim_def is_ws_def example_encode_def replace_char_def get_call_def show_int_def
  show_nat_404 show_nat_10 show_nat_500 show_nat_400 example_parse_def example_documents_def
  example_stringify_def



text \<open>
  What \<^verbatim>\<open>makeRequest\<close> returns for a \<^verbatim>\<open>GET\<close> is what the cache holds under the key
  of the request, so the search methods, which assign to \<^verbatim>\<open>result.results\<close>, reshape
  the cache entry: the second of two identical searches within the time to live is served
  from the cache, its items are reshaped once more, and they lose the \<^verbatim>\<open>webui\<close> that
  the first reshaping had taken from \<^verbatim>\<open>_links\<close>.
\<close>

lemma makeRequest_cached:
  assumes "conf_makeRequest rt endpoint ''GET'' JNull w = (Inr result, w')"
  shows "\<exists>timestamp. cache w' (get_key rt endpoint) = Some (result, timestamp)"
  using assms
  by (auto simp: conf_makeRequest_def Let_def get_key_def [symmetric] getFromCache_def
      setToCache_def date_now_def
      split: if_splits option.splits prod.splits http_response.splits sum.splits)

lemma search_twice_reshapes_twice:
  \<open>fst (cql_attempt rt_guide ''type = page'' (JNum 10) world0)
     = Inr (JObj [(''results'',
                   JArr [JObj [(''id'', JStr ''42''), (''title'', JStr ''Guide''),
                               (''webui'', JStr ''/x/Guide'')]]),
                  (''size'', JNum 1), (''limit'', JNum 10)])
   \<and> fst (cql_attempt rt_guide ''type = page'' (JNum 10)
            (snd (cql_attempt rt_guide ''type = page'' (JNum 10) world0)))
     = Inr (JObj [(''results'',
                   JArr [JObj [(''id'', JStr ''42''), (''title'', JStr ''Guide'')]]),
                  (''size'', JNum 1), (''limit'', JNum 10)])
   \<and> calls (snd (cql_attempt rt_guide ''type = page'' (JNum 10)
            (snd (cql_attempt rt_guide ''type = page'' (JNum 10) world0))))
     = [get_call ''/content/search?cql=type%20%3D%20page&limit=10'']\<close>
  by (simp add: search_defs example_eval version_of_def cacheTimeout_def)

section \<open>Notifications\<close>

text \<open>The Confluence dispatcher writes nothing for a message whose method is in the
  notification namespace or is \<^verbatim>\<open>initialized\<close>, and nothing for a message without id
  (or with id \<^verbatim>\<open>null\<close>) whose handling succeeds; \<open>conf_line_reply_id\<close> above is
  the one reply to a request with an id.\<close>

lemma conf_notification_silent:
  assumes "conf_decode rt line = Inr (request, rid)" and "is_notification request = Some True"
  shows "conf_line rt line w = ([], w, False)"
  using assms by (simp add: conf_line_def)

lemma conf_success_without_id_silent:
  assumes "conf_decode rt line = Inr (request, JNull)" and "is_notification request = Some False"
    and "conf_handleRequest rt request w = (Inr response, w')"
  shows "conf_line rt line w = ([], w', False)"
  using assms by (simp add: conf_line_def)

text \<open>A method that is truthy and no string (a number, say) ends the Confluence handler
  without a reply: \<^verbatim>\<open>request.method.startsWith\<close> is no function.\<close>

lemma conf_method_not_a_string:
  assumes "conf_decode rt line = Inr (request, rid)" and "is_notification request = None"
  shows "conf_line rt line w = ([], w, True)"
  using assms by (simp add: conf_line_def)

text \<open>
  Claim C2 fails on the Jira dispatcher, which has no notion of a notification: the
  notification \<^verbatim>\<open>notifications/initialized\<close>, sent without id, is answered with an
  error reply of code \<open>-32601\<close> and id \<^verbatim>\<open>null\<close>, where the Confluence dispatcher
  writes nothing. The Confluence dispatcher in turn tests \<^verbatim>\<open>requestId !== null\<close> only
  before a success reply: a message without id whose handling throws is answered too.
\<close>

theorem jira_replies_to_notification:
  \<open>jira_line example_rt ''{"jsonrpc":"2.0","method":"notifications/initialized"}'' world0
     = ([Failure JNull (- 32601) ''Method not found''
           (Some ''Unknown method: notifications/initialized'')], world0)
   \<and> conf_line example_rt ''{"jsonrpc":"2.0","method":"notifications/initialized"}'' world0
     = ([], world0, False)
   \<and> conf_line example_rt ''{"jsonrpc":"2.0","method":"ping"}'' world0
     = ([Failure JNull (- 32601) ''Method not found'' (Some ''Unknown method: ping'')],
        world0, False)\<close>
  by (simp add: jira_line_def jira_decode_def example_parse_simps id_or_null_def
      jira_handleRequest_def destructure_request_def jira_error_code_def
      conf_line_def conf_decode_def id_unless_undefined_def is_notification_def startsWith_def
      conf_handleRequest_def conf_error_code_def)

section \<open>Required arguments\<close>

text \<open>The Jira dispatcher tests the required arguments before it calls a backend method.\<close>

lemma missing_absent:
  "args \<noteq> JNull \<Longrightarrow> p \<in> set req \<Longrightarrow> get args p = None \<Longrightarrow> missing args req = Inr True"
  by (induction req) (auto simp: read_prop_not_null)

lemma tool_case_missing:
  "args \<noteq> JNull \<Longrightarrow> p \<in> set req \<Longrightarrow> get args p = None \<Longrightarrow>
     tool_case rt args req msg m ks w = (Inl (Error msg), w)"
  by (simp add: tool_case_def missing_absent)

lemma required_codes:
  "jira_error_code (''Tool execution failed: '' @ ''issueKey is required'') = (- 32602, ''Invalid params'')"
  "jira_error_code (''Tool execution failed: '' @ ''jql is required'') = (- 32602, ''Invalid params'')"
  "jira_error_code (''Tool execution failed: '' @ ''projectKey, issueType, and summary are required'')
     = (- 32602, ''Invalid params'')"
  "jira_error_code (''Tool execution failed: '' @ ''issueKey and fields are required'')
     = (- 32602, ''Invalid params'')"
  "jira_error_code (''Tool execution failed: '' @ ''issueKey and comment are required'')
     = (- 32602, ''Invalid params'')"
  "jira_error_code (''Tool execution failed: '' @ ''projectKey is required'')
     = (- 32602, ''Invalid params'')"
  by (simp_all add: jira_error_code_def)

lemma jira_switch_missing:
  assumes "t \<in> set jira_tools" and "p \<in> set (required t)" and "args \<noteq> JNull"
    and "get args p = None"
  shows "\<exists>msg. jira_switch rt (Some (JStr (tool_name t))) args w = (Inl (Error msg), w)
           \<and> jira_error_code (''Tool execution failed: '' @ msg) = (- 32602, ''Invalid params'')"
proof -
  note tc = tool_case_missing [OF assms(3) _ assms(4)]
  from assms(1,2) consider
      "tool_name t = ''get_issue''" "p \<in> set [''issueKey'']"
    | "tool_name t = ''search_issues''" "p \<in> set [''jql'']"
    | "tool_name t = ''create_issue''" "p \<in> set [''projectKey'', ''issueType'', ''summary'']"
    | "tool_name t = ''update_issue''" "p \<in> set [''issueKey'', ''fields'']"
    | "tool_name t = ''add_comment''" "p \<in> set [''issueKey'', ''comment'']"
    | "tool_name t = ''get_fix_versions''" "p \<in> set [''projectKey'']"
    | "tool_name t = ''get_components''" "p \<in> set [''projectKey'']"
    by (auto simp: jira_tools_def)
  then show ?thesis
  proof cases
    case 1
    then show ?thesis using tc [of "[''issueKey'']"] required_codes(1)
      by (intro exI [of _ "''issueKey is required''"]) (simp add: jira_switch_def)
  next
    case 2
    then show ?thesis using tc [of "[''jql'']"] required_codes(2)
      by (intro exI [of _ "''jql is required''"]) (simp add: jira_switch_def)
  next
    case 3
    then show ?thesis
      using tc [of "[''projectKey'', ''issueType'', ''summary'']"] required_codes(3)
      by (intro exI [of _ "''projectKey, issueType, and summary are required''"])
        (simp add: jira_switch_def)
  next
    case 4
    then show ?thesis using tc [of "[''issueKey'', ''fields'']"] required_codes(4)
      by (intro exI [of _ "''issueKey and fields are required''"]) (simp add: jira_switch_def)
  next
    case 5
    then show ?thesis using tc [of "[''issueKey'', ''comment'']"] required_codes(5)
      by (intro exI [of _ "''issueKey and comment are required''"]) (simp add: jira_switch_def)
  next
    case 6
    then show ?thesis using tc [of "[''projectKey'']"] required_codes(6)
      by (intro exI [of _ "''projectKey is required''"]) (simp add: jira_switch_def)
  next
    case 7
    then show ?thesis using tc [of "[''projectKey'']"] required_codes(6)
      by (intro exI [of _ "''projectKey is required''"]) (simp add: jira_switch_def)
  qed
qed

text \<open>
  In the words of claim C4, for the Jira dispatcher: a \<^verbatim>\<open>tools/call\<close> that names a tool
  of the registry and whose arguments (any value but \<^verbatim>\<open>null\<close>) lack a property the
  tool's schema requires is answered with code \<open>-32602\<close>, and the world is unchanged: no
  backend call was made.
\<close>

lemma jira_missing_required:
  assumes "JSON_parse rt line = Inr request" and "request \<noteq> JNull"
    and "destructure_request request = Inr (Some (JStr ''tools/call''), params)"
    and "destructure_params params = Inr (Some (JStr (tool_name t)), args)"
    and "t \<in> set jira_tools" and "p \<in> set (required t)"
    and "args \<noteq> JNull" and "get args p = None"
  shows "\<exists>d. jira_line rt line w =
           ([Failure (id_or_null (get request ''id'')) (- 32602) ''Invalid params'' (Some d)], w)"
proof -
  obtain msg where sw: "jira_switch rt (Some (JStr (tool_name t))) args w = (Inl (Error msg), w)"
    and code: "jira_error_code (''Tool execution failed: '' @ msg) = (- 32602, ''Invalid params'')"
    using jira_switch_missing [OF assms(5,6,7,8)] by blast
  have "jira_handleToolCall rt params w = (Inl (Error (''Tool execution failed: '' @ msg)), w)"
    using assms(4) sw by (simp add: jira_handleToolCall_def)
  then have "jira_handleRequest rt request w = (Inl (Error (''Tool execution failed: '' @ msg)), w)"
    using assms(3) by (simp add: jira_handleRequest_def)
  then show ?thesis
    using jira_line_failure [OF jira_decode_ok [OF assms(1,2)] _ code] by blast
qed

text \<open>
  Claim C4 fails on the Confluence dispatcher, whose \<^verbatim>\<open>handleToolCall\<close> tests no
  argument: \<^verbatim>\<open>get_page\<close> without the \<^verbatim>\<open>pageId\<close> its schema requires sends
  \<^verbatim>\<open>GET /content/undefined?expand=body.storage,version\<close> to the backend, and the reply
  is a result (the backend's failure as content), not an error of code \<open>-32602\<close>. The Jira
  dispatcher answers the like message for \<^verbatim>\<open>get_issue\<close> with \<open>-32602\<close> and calls
  nothing.
\<close>

theorem conf_missing_pageId_calls_backend:
  \<open>fst (conf_line rt_404
      ''{"jsonrpc":"2.0","id":1,"method":"tools/call","params":{"name":"get_page","arguments":{}}}''
      world0)
     = [Success (JNum 1) (Content ''Error: Confluence API Error: 404 - Not Found'' True)]
   \<and> calls (fst (snd (conf_line rt_404
      ''{"jsonrpc":"2.0","id":1,"method":"tools/call","params":{"name":"get_page","arguments":{}}}''
      world0)))
     = [get_call ''/content/undefined?expand=body.storage,version'']
   \<and> jira_line rt_404
      ''{"jsonrpc":"2.0","id":2,"method":"tools/call","params":{"name":"get_issue","arguments":{}}}''
      world0
     = ([Failure (JNum 2) (- 32602) ''Invalid params''
           (Some ''Tool execution failed: issueKey is required'')], world0)\<close>
  by (simp add: conf_line_def conf_decode_def id_unless_undefined_def is_notification_def
      startsWith_def conf_handleRequest_def destructure_request_def conf_handleToolCall_def
      destructure_params_def conf_switch_def conf_getPage_def conf_makeRequest_def Let_def
      getFromCache_def getCacheKey_def rt_404_def example_parse_simps world0_def get_call_def
      show_nat_404
      jira_line_def jira_decode_def id_or_null_def jira_handleRequest_def jira_handleToolCall_def
      jira_switch_def tool_case_def jira_error_code_def)

section \<open>Lines that do not decode\<close>

lemma jira_parse_failure:
  "JSON_parse rt line = Inl e \<Longrightarrow>
     jira_line rt line w = ([Failure JNull (- 32700) ''Parse error'' (Some (message e))], w)"
  by (simp add: jira_line_def jira_decode_def)

lemma conf_parse_failure:
  "JSON_parse rt line = Inl e \<Longrightarrow>
     conf_line rt line w = ([Failure JNull (- 32700) ''Parse error'' (Some (message e))], w, False)"
  by (simp add: conf_line_def conf_decode_def)

lemma jira_lines_append:
  "jira_lines rt (xs @ ys) w =
     (case jira_lines rt xs w of
        (out, w') \<Rightarrow> (case jira_lines rt ys w' of (out', w'') \<Rightarrow> (out @ out', w'')))"
  by (induction xs arbitrary: w) (auto split: prod.splits)

text \<open>
  In the words of claim C9, for the Jira adapter v1.3.0: a line that does not decode is
  answered with one error reply of code \<open>-32700\<close> and id \<^verbatim>\<open>null\<close>, the world is
  unchanged, and the lines before and after it are handled as they would be without it.
\<close>

lemma jira_continues_after_parse_failure:
  assumes "\<not> blank line" and "JSON_parse rt line = Inl e"
  shows "jira_lines rt (before @ line # after) w =
     (case jira_lines rt before w of
        (out, w') \<Rightarrow>
          (case jira_lines rt after w' of
             (out', w'') \<Rightarrow>
               (out @ Failure JNull (- 32700) ''Parse error'' (Some (message e)) # out', w'')))"
  using assms by (simp add: jira_lines_append jira_parse_failure split: prod.splits)

text \<open>
  Claim C9 fails on the legacy adapter, where one \<^verbatim>\<open>try\<close> encloses the loop over the
  lines of a chunk: a line that does not decode is answered with code \<open>-32603\<close>, not
  \<open>-32700\<close>, and the lines after it in the chunk are never handled, whatever the
  request handler \<open>h\<close> is. The Jira adapter v1.3.0 answers the same chunk with the
  parse error and the reply to the second line.
\<close>

theorem legacy_parse_failure_ends_chunk:
  \<open>legacy_on_data h example_rt world0
      (''oops'' @ [CHR 0x0A] @ ''{"jsonrpc":"2.0","id":1,"method":"tools/list"}'' @ [CHR 0x0A])
     = ([Failure JNull (- 32603) ''Unexpected token'' None], world0)
   \<and> jira_on_data example_rt ([], world0)
      (''oops'' @ [CHR 0x0A] @ ''{"jsonrpc":"2.0","id":1,"method":"tools/list"}'' @ [CHR 0x0A])
     = ([Failure JNull (- 32700) ''Parse error'' (Some ''Unexpected token''),
         Success (JNum 1) (ToolList jira_tools)], ([], world0))\<close>
  by (simp add: legacy_on_data_def js_trim_def is_ws_def blank_def example_parse_simps
      jira_on_data_def frame_def jira_line_def jira_decode_def id_or_null_def
      jira_handleRequest_def destructure_request_def)


end
